theory Spec2Isabelle
  imports Main "HOL-Library.Char_ord" "HOL-Library.List_Lexorder"
begin

section \<open>Strings and dynamically typed values\<close>

text \<open>
  A Python \<open>str\<close> is modelled as a \<open>string\<close> holding its UTF-8 bytes; the
  non-ASCII literals of the source are written out byte by byte. The lexicographic order
  on byte lists coincides with Python's order on code points, so \<open>sorted\<close> on ids is
  \<open>sorted_list_of_set\<close> over that order.
\<close>

definition label_single :: string where
  "label_single = [CHR 0xE5, CHR 0x8D, CHR 0x95, CHR 0xE9, CHR 0x80, CHR 0x89, CHR 0xE9, CHR 0xA2, CHR 0x98]"

definition label_multiple :: string where
  "label_multiple = [CHR 0xE5, CHR 0xA4, CHR 0x9A, CHR 0xE9, CHR 0x80, CHR 0x89, CHR 0xE9, CHR 0xA2, CHR 0x98]"

definition label_true_false :: string where
  "label_true_false = [CHR 0xE5, CHR 0x88, CHR 0xA4, CHR 0xE6, CHR 0x96, CHR 0xAD, CHR 0xE9, CHR 0xA2, CHR 0x98]"

definition label_fill_blank :: string where
  "label_fill_blank = [CHR 0xE5, CHR 0xA1, CHR 0xAB, CHR 0xE7, CHR 0xA9, CHR 0xBA, CHR 0xE9, CHR 0xA2, CHR 0x98]"

definition msg_format_error :: string where
  "msg_format_error = [CHR 0xE7, CHR 0xAD, CHR 0x94, CHR 0xE6, CHR 0xA1, CHR 0x88, CHR 0xE6, CHR 0xA0, CHR 0xBC, CHR 0xE5, CHR 0xBC, CHR 0x8F, CHR 0xE9, CHR 0x94, CHR 0x99, CHR 0xE8, CHR 0xAF, CHR 0xAF]"

definition msg_unknown_type :: string where
  "msg_unknown_type = [CHR 0xE6, CHR 0x9C, CHR 0xAA, CHR 0xE7, CHR 0x9F, CHR 0xA5, CHR 0xE9, CHR 0xA2, CHR 0x98, CHR 0xE7, CHR 0x9B, CHR 0xAE, CHR 0xE7, CHR 0xB1, CHR 0xBB, CHR 0xE5, CHR 0x9E, CHR 0x8B]"

definition msg_no_feedback :: string where
  "msg_no_feedback = [CHR 0xE6, CHR 0x9C, CHR 0xAA, CHR 0xE8, CHR 0x83, CHR 0xBD, CHR 0xE7, CHR 0x94, CHR 0x9F, CHR 0xE6, CHR 0x88, CHR 0x90, CHR 0xE4, CHR 0xB8, CHR 0xAA, CHR 0xE6, CHR 0x80, CHR 0xA7, CHR 0xE5, CHR 0x8C, CHR 0x96, CHR 0xE5, CHR 0x8F, CHR 0x8D, CHR 0xE9, CHR 0xA6, CHR 0x88]"

definition msg_correct_prefix :: string where
  "msg_correct_prefix = [CHR 0xE6, CHR 0xAD, CHR 0xA3, CHR 0xE7, CHR 0xA1, CHR 0xAE, CHR 0xE7, CHR 0xAD, CHR 0x94, CHR 0xE6, CHR 0xA1, CHR 0x88, CHR 0xE5, CHR 0x8C, CHR 0x85, CHR 0xE5, CHR 0x90, CHR 0xAB, CHR 0xE9, CHR 0x80, CHR 0x89, CHR 0xE9, CHR 0xA1, CHR 0xB9, CHR 0xEF, CHR 0xBC, CHR 0x9A]"

definition feedback_90 :: string where
  "feedback_90 = [CHR 0xE4, CHR 0xB8, CHR 0x93, CHR 0xE4, CHR 0xB8, CHR 0x9A, CHR 0xE5, CHR 0x8A, CHR 0x9F, CHR 0xE5, CHR 0xBA, CHR 0x95, CHR 0xE6, CHR 0x89, CHR 0x8E, CHR 0xE5, CHR 0xAE, CHR 0x9E, CHR 0x2C, CHR 0xE7, CHR 0xBB, CHR 0x86, CHR 0xE8, CHR 0x8A, CHR 0x82, CHR 0xE6, CHR 0x8A, CHR 0x8A, CHR 0xE6, CHR 0x8E, CHR 0xA7, CHR 0xE8, CHR 0xBF, CHR 0x91, CHR 0xE4, CHR 0xB9, CHR 0x8E, CHR 0xE5, CHR 0xAE, CHR 0x8C, CHR 0xE7, CHR 0xBE, CHR 0x8E, CHR 0x21]"

definition feedback_80 :: string where
  "feedback_80 = [CHR 0xE4, CHR 0xB8, CHR 0x93, CHR 0xE4, CHR 0xB8, CHR 0x9A, CHR 0xE5, CHR 0x9F, CHR 0xBA, CHR 0xE7, CHR 0xA1, CHR 0x80, CHR 0xE8, CHR 0x89, CHR 0xAF, CHR 0xE5, CHR 0xA5, CHR 0xBD, CHR 0x2C, CHR 0xE5, CHR 0xAF, CHR 0xB9, CHR 0xE7, CHR 0x9F, CHR 0xA5, CHR 0xE8, CHR 0xAF, CHR 0x86, CHR 0xE7, CHR 0x82, CHR 0xB9, CHR 0xE6, CHR 0x8E, CHR 0x8C, CHR 0xE6, CHR 0x8F, CHR 0xA1, CHR 0xE8, CHR 0xBE, CHR 0x83, CHR 0xE4, CHR 0xB8, CHR 0xBA, CHR 0xE5, CHR 0x85, CHR 0xA8, CHR 0xE9, CHR 0x9D, CHR 0xA2, CHR 0x21]"

definition feedback_70 :: string where
  "feedback_70 = [CHR 0xE5, CHR 0x9F, CHR 0xBA, CHR 0xE6, CHR 0x9C, CHR 0xAC, CHR 0xE6, CHR 0x8E, CHR 0x8C, CHR 0xE6, CHR 0x8F, CHR 0xA1, CHR 0xE7, CHR 0x9B, CHR 0xB8, CHR 0xE5, CHR 0x85, CHR 0xB3, CHR 0xE7, CHR 0x9F, CHR 0xA5, CHR 0xE8, CHR 0xAF, CHR 0x86, CHR 0x2C, CHR 0xE4, CHR 0xBB, CHR 0x8D, CHR 0xE6, CHR 0x9C, CHR 0x89, CHR 0xE6, CHR 0x8F, CHR 0x90, CHR 0xE5, CHR 0x8D, CHR 0x87, CHR 0xE7, CHR 0xA9, CHR 0xBA, CHR 0xE9, CHR 0x97, CHR 0xB4, CHR 0x21]"

definition feedback_60 :: string where
  "feedback_60 = [CHR 0xE9, CHR 0x83, CHR 0xA8, CHR 0xE5, CHR 0x88, CHR 0x86, CHR 0xE7, CHR 0x9F, CHR 0xA5, CHR 0xE8, CHR 0xAF, CHR 0x86, CHR 0xE7, CHR 0x82, CHR 0xB9, CHR 0xE6, CHR 0x8E, CHR 0x8C, CHR 0xE6, CHR 0x8F, CHR 0xA1, CHR 0x2C, CHR 0xE9, CHR 0x9C, CHR 0x80, CHR 0xE8, CHR 0xA6, CHR 0x81, CHR 0xE5, CHR 0x8A, CHR 0xA0, CHR 0xE5, CHR 0xBC, CHR 0xBA, CHR 0xE5, CHR 0xAD, CHR 0xA6, CHR 0xE4, CHR 0xB9, CHR 0xA0, CHR 0x21]"

definition feedback_low :: string where
  "feedback_low = [CHR 0xE9, CHR 0x9C, CHR 0x80, CHR 0xE8, CHR 0xA6, CHR 0x81, CHR 0xE7, CHR 0xB3, CHR 0xBB, CHR 0xE7, CHR 0xBB, CHR 0x9F, CHR 0xE5, CHR 0xA4, CHR 0x8D, CHR 0xE4, CHR 0xB9, CHR 0xA0, CHR 0x2C, CHR 0xE5, CHR 0xBB, CHR 0xBA, CHR 0xE8, CHR 0xAE, CHR 0xAE, CHR 0xE9, CHR 0x87, CHR 0x8D, CHR 0xE7, CHR 0x82, CHR 0xB9, CHR 0xE5, CHR 0x85, CHR 0xB3, CHR 0xE6, CHR 0xB3, CHR 0xA8, CHR 0xE9, CHR 0x94, CHR 0x99, CHR 0xE8, CHR 0xAF, CHR 0xAF, CHR 0xE9, CHR 0xA2, CHR 0x98, CHR 0xE7, CHR 0x9B, CHR 0xAE, CHR 0x21]"

text \<open>
  A user answer arrives untyped: a \<open>str\<close>, a \<open>list\<close> (of ids), or anything else.
  \<open>PyOther s\<close> stands for a value that is neither, with \<open>s\<close> its \<open>str(...)\<close> rendering;
  the same type carries the \<open>correct_answer\<close> of a result, which is a \<open>str\<close> or a \<open>list\<close>.
\<close>

datatype py_value = PyStr string | PyList "string list" | PyOther string

text \<open>
  The code points for which \<open>str.isspace\<close> holds, each as its UTF-8 bytes: the ASCII
  ones, U+0085, U+00A0, U+1680, U+2000 to U+200A, U+2028, U+2029, U+202F, U+205F and
  U+3000.
\<close>

definition py_whitespace :: "string list" where
  "py_whitespace =
     [[CHR 0x09], [CHR 0x0A], [CHR 0x0B], [CHR 0x0C], [CHR 0x0D],
      [CHR 0x1C], [CHR 0x1D], [CHR 0x1E], [CHR 0x1F], [CHR 0x20],
      [CHR 0xC2, CHR 0x85], [CHR 0xC2, CHR 0xA0], [CHR 0xE1, CHR 0x9A, CHR 0x80],
      [CHR 0xE2, CHR 0x80, CHR 0x80], [CHR 0xE2, CHR 0x80, CHR 0x81],
      [CHR 0xE2, CHR 0x80, CHR 0x82], [CHR 0xE2, CHR 0x80, CHR 0x83],
      [CHR 0xE2, CHR 0x80, CHR 0x84], [CHR 0xE2, CHR 0x80, CHR 0x85],
      [CHR 0xE2, CHR 0x80, CHR 0x86], [CHR 0xE2, CHR 0x80, CHR 0x87],
      [CHR 0xE2, CHR 0x80, CHR 0x88], [CHR 0xE2, CHR 0x80, CHR 0x89],
      [CHR 0xE2, CHR 0x80, CHR 0x8A], [CHR 0xE2, CHR 0x80, CHR 0xA8],
      [CHR 0xE2, CHR 0x80, CHR 0xA9], [CHR 0xE2, CHR 0x80, CHR 0xAF],
      [CHR 0xE2, CHR 0x81, CHR 0x9F], [CHR 0xE3, CHR 0x80, CHR 0x80]]"

text \<open>
  Removing from the front of a string every leading occurrence of one of the given
  non-empty byte sequences. In well-formed UTF-8 a prefix (or, read backwards, a suffix)
  that equals the encoding of a code point is that code point.
\<close>

function strip_left :: "string list \<Rightarrow> string \<Rightarrow> string" where
  "strip_left ws s =
     (case find (\<lambda>w. w \<noteq> [] \<and> take (length w) s = w) ws of
        None \<Rightarrow> s
      | Some w \<Rightarrow> strip_left ws (drop (length w) s))"
  by pat_completeness auto
termination
proof (relation "measure (\<lambda>(ws, s). length s)")
  show "wf (measure (\<lambda>(ws, s). length s))" by simp
next
  fix ws :: "string list" and s w :: string
  assume "find (\<lambda>w. w \<noteq> [] \<and> take (length w) s = w) ws = Some w"
  then have "w \<noteq> []" "take (length w) s = w"
    by (auto simp: find_Some_iff)
  then have "s \<noteq> []" by auto
  with \<open>w \<noteq> []\<close> show "((ws, drop (length w) s), (ws, s)) \<in> measure (\<lambda>(ws, s). length s)"
    by simp
qed

text \<open>\<open>str.strip()\<close>: whitespace is removed at both ends.\<close>

definition py_strip :: "string \<Rightarrow> string" where
  "py_strip s = rev (strip_left (map rev py_whitespace) (rev (strip_left py_whitespace s)))"

text \<open>\<open>s.split(sep)\<close> for a one-character separator: the empty string gives \<open>['']\<close>.\<close>

fun py_split :: "char \<Rightarrow> string \<Rightarrow> string list" where
  "py_split sep [] = [[]]"
| "py_split sep (c # cs) =
     (if c = sep then [] # py_split sep cs
      else (case py_split sep cs of w # ws \<Rightarrow> (c # w) # ws | [] \<Rightarrow> [[c]]))"

text \<open>\<open>sep.join(xs)\<close>.\<close>

fun py_join :: "string \<Rightarrow> string list \<Rightarrow> string" where
  "py_join sep [] = []"
| "py_join sep [x] = x"
| "py_join sep (x # y # ys) = x @ sep @ py_join sep (y # ys)"

section \<open>Questions, options and scoring tasks\<close>

text \<open>
  An option dictionary is read with \<open>opt.get(key, default)\<close> only, so a missing key is
  the same as the default value; the record holds what \<open>get\<close> returns. The explanation
  may be \<open>None\<close>.
\<close>

record quiz_option =
  opt_id :: string
  opt_text :: string
  opt_is_correct :: bool
  opt_explanation :: "string option"

record question =
  q_question_id :: string
  q_question_type :: string
  q_question_text :: string
  q_options :: "quiz_option list"

record analysis_task =
  task_question_id :: string
  task_question_type :: string
  task_question_text :: string
  task_user_answer :: py_value
  task_options :: "quiz_option list"

text \<open>
  The dictionary \<open>calculate_question_score\<close> returns. The scores are the floats
  \<open>0.0\<close>, \<open>5.0\<close> and \<open>10.0\<close>; they and their sums are integers that binary floating
  point holds exactly, so \<open>int\<close> carries them.
\<close>

record score_info =
  si_is_correct :: bool
  si_score :: int
  si_correct_answer :: py_value
  si_explanation :: "string option"
  si_chinese_type :: string

section \<open>The scoring function\<close>

definition base_score :: int where
  "base_score = 10"

definition type_mapping :: "(string \<times> string) list" where
  "type_mapping =
     [(''single_choice'', label_single), (''multiple_choice'', label_multiple),
      (''true_false'', label_true_false), (''fill_blank'', label_fill_blank),
      (label_single, label_single), (label_multiple, label_multiple),
      (label_true_false, label_true_false), (label_fill_blank, label_fill_blank)]"

definition chinese_type_of :: "string \<Rightarrow> string" where
  "chinese_type_of question_type =
     (case map_of type_mapping question_type of Some l \<Rightarrow> l | None \<Rightarrow> question_type)"

definition is_single_choice :: "string \<Rightarrow> bool" where
  "is_single_choice question_type = (question_type \<in> set [''single_choice'', label_single])"

definition is_multiple_choice :: "string \<Rightarrow> bool" where
  "is_multiple_choice question_type = (question_type \<in> set [''multiple_choice'', label_multiple])"

text \<open>
  Single choice, the answer: the first element of a list (\<open>''\<close> for the empty list),
  otherwise \<open>str(user_answer).strip()\<close>.
\<close>

fun single_answer :: "py_value \<Rightarrow> string" where
  "single_answer (PyList xs) = (case xs of [] \<Rightarrow> [] | x # _ \<Rightarrow> x)"
| "single_answer (PyStr s) = py_strip s"
| "single_answer (PyOther s) = py_strip s"

text \<open>
  Multiple choice, the answer: a string is stripped and split at commas, a list is used
  as it is, anything else is the empty set.
\<close>

fun user_options :: "py_value \<Rightarrow> string set" where
  "user_options (PyStr s) = set (py_split CHR '','' (py_strip s))"
| "user_options (PyList xs) = set xs"
| "user_options (PyOther s) = {}"

definition correct_ids :: "quiz_option list \<Rightarrow> string list" where
  "correct_ids options = map opt_id (filter opt_is_correct options)"

definition score_single :: "string \<Rightarrow> py_value \<Rightarrow> quiz_option list \<Rightarrow> score_info" where
  "score_single chinese_type user_answer options =
     (let answer = single_answer user_answer;
          correct_options = correct_ids options;
          correct_answer = (case correct_options of [] \<Rightarrow> [] | c # _ \<Rightarrow> c)
      in case find (\<lambda>option. opt_id option = answer) options of
           Some option \<Rightarrow>
             \<lparr>si_is_correct = opt_is_correct option,
              si_score = (if opt_is_correct option then base_score else 0),
              si_correct_answer = PyStr correct_answer,
              si_explanation = opt_explanation option,
              si_chinese_type = chinese_type\<rparr>
         | None \<Rightarrow>
             \<lparr>si_is_correct = False,
              si_score = 0,
              si_correct_answer = PyStr correct_answer,
              si_explanation = Some msg_format_error,
              si_chinese_type = chinese_type\<rparr>)"

definition score_multiple :: "string \<Rightarrow> py_value \<Rightarrow> quiz_option list \<Rightarrow> score_info" where
  "score_multiple chinese_type user_answer options =
     (let user_opts = user_options user_answer;
          correct_options = set (correct_ids options);
          correct_answer = sorted_list_of_set correct_options;
          has_wrong_answer = (card (user_opts - correct_options) > 0);
          all_correct_answered = (card (correct_options - user_opts) = 0);
          correct_answered_count = card (user_opts \<inter> correct_options);
          (is_correct, score) =
            (if has_wrong_answer then (False, 0)
             else if all_correct_answered \<and> card user_opts = card correct_options
               then (True, base_score)
             else if correct_answered_count > 0 then (True, 5)
             else (False, 0))
      in \<lparr>si_is_correct = is_correct,
          si_score = score,
          si_correct_answer = PyList correct_answer,
          si_explanation = Some (msg_correct_prefix @ py_join '', '' correct_answer),
          si_chinese_type = chinese_type\<rparr>)"

definition score_unknown :: "string \<Rightarrow> quiz_option list \<Rightarrow> score_info" where
  "score_unknown chinese_type options =
     \<lparr>si_is_correct = False,
      si_score = 0,
      si_correct_answer = PyStr (concat (correct_ids options)),
      si_explanation = Some msg_unknown_type,
      si_chinese_type = chinese_type\<rparr>"

definition calculate_question_score :: "analysis_task \<Rightarrow> score_info" where
  "calculate_question_score analysis_task =
     (let question_type = task_question_type analysis_task;
          user_answer = task_user_answer analysis_task;
          options = task_options analysis_task;
          chinese_type = chinese_type_of question_type
      in if is_single_choice question_type then score_single chinese_type user_answer options
         else if is_multiple_choice question_type then score_multiple chinese_type user_answer options
         else score_unknown chinese_type options)"

section \<open>Merging the generator's explanations and banding the total\<close>

record question_analysis =
  qa_question_id :: string
  qa_question_type :: string
  qa_question_text :: string
  qa_user_answer :: py_value
  qa_is_correct :: bool
  qa_score :: int
  qa_correct_answer :: py_value
  qa_explanation :: string

record analysis_output =
  analysis_results :: "question_analysis list"
  total_score :: int
  correct_count :: nat
  total_count :: nat
  overall_feedback :: string

text \<open>
  The generator's \<open>results\<close> array, each item read as
  \<open>(str(item.get('question_id', '')), item.get('explanation', ''))\<close>. The dictionary built
  from it keeps the last item of a question id.
\<close>

type_synonym ai_explanations = "(string \<times> string) list"

definition explanation_map :: "ai_explanations \<Rightarrow> string \<rightharpoonup> string" where
  "explanation_map ai_explanations =
     fold (\<lambda>item m. m(fst item \<mapsto> snd item)) ai_explanations Map.empty"

text \<open>
  The loop over the tasks, with its three accumulators \<open>final_results\<close>,
  \<open>total_score\<close> and \<open>correct_count\<close>.
\<close>

fun score_tasks ::
  "(string \<rightharpoonup> string) \<Rightarrow> analysis_task list \<Rightarrow> question_analysis list \<times> int \<times> nat
     \<Rightarrow> question_analysis list \<times> int \<times> nat" where
  "score_tasks em [] acc = acc"
| "score_tasks em (task # tasks) (final_results, score_sum, cnt) =
     (let info = calculate_question_score task;
          ai_feedback = (case em (task_question_id task) of
                           Some e \<Rightarrow> e | None \<Rightarrow> msg_no_feedback);
          result = \<lparr>qa_question_id = task_question_id task,
                    qa_question_type = si_chinese_type info,
                    qa_question_text = task_question_text task,
                    qa_user_answer = task_user_answer task,
                    qa_is_correct = si_is_correct info,
                    qa_score = si_score info,
                    qa_correct_answer = si_correct_answer info,
                    qa_explanation = ai_feedback\<rparr>
      in score_tasks em tasks
           (final_results @ [result], score_sum + si_score info,
            if si_is_correct info then cnt + 1 else cnt))"

definition process_ai_analysis_results ::
  "ai_explanations \<Rightarrow> analysis_task list \<Rightarrow> analysis_output" where
  "process_ai_analysis_results ai_explanations analysis_tasks =
     (case score_tasks (explanation_map ai_explanations) analysis_tasks ([], 0, 0) of
        (final_results, score_sum, cnt) \<Rightarrow>
          \<lparr>analysis_results = final_results,
           total_score = score_sum,
           correct_count = cnt,
           total_count = length analysis_tasks,
           overall_feedback =
             (if score_sum \<ge> 90 then feedback_90
              else if score_sum \<ge> 80 then feedback_80
              else if score_sum \<ge> 70 then feedback_70
              else if score_sum \<ge> 60 then feedback_60
              else feedback_low)\<rparr>)"

text \<open>
  The explanation generator is external. What a call to it can do: the prompt template
  cannot be read (raised before the \<open>try\<close>, so it propagates); the call raises; its
  output is not a dictionary of the expected shape, so that reading it raises; or it
  yields a \<open>results\<close> array. Inside the \<open>try\<close> every exception is logged and the
  function then ends without a \<open>return\<close>, that is, it returns \<open>None\<close>.
\<close>

datatype generator_outcome =
  PromptLoadFails | CallRaises | OutputUnusable | Results ai_explanations

datatype error =
  PaperNotFound | EmptyPaperContent | UnknownQuestion string | PromptLoadError | AttributeError

definition analyze_paper_answers ::
  "generator_outcome \<Rightarrow> analysis_task list \<Rightarrow> error + analysis_output option" where
  "analyze_paper_answers outcome analysis_tasks =
     (case outcome of
        PromptLoadFails \<Rightarrow> Inl PromptLoadError
      | CallRaises \<Rightarrow> Inr None
      | OutputUnusable \<Rightarrow> Inr None
      | Results ai_explanations \<Rightarrow>
          Inr (Some (process_ai_analysis_results ai_explanations analysis_tasks)))"

section \<open>Access codes\<close>

definition chars :: string where
  "chars = ''ABCDEFGHJKLMNPQRSTUVWXYZ23456789''"

definition ascii_uppercase :: string where
  "ascii_uppercase = ''ABCDEFGHIJKLMNOPQRSTUVWXYZ''"

definition digits :: string where
  "digits = ''0123456789''"

text \<open>
  \<open>generate_access_code\<close>: one \<open>random.choice(chars)\<close> per position; the draws are the
  indices chosen, each below \<open>len(chars)\<close>.
\<close>

definition generate_access_code :: "nat list \<Rightarrow> string" where
  "generate_access_code draws = map (\<lambda>i. chars ! i) draws"

definition validate_access_code :: "string \<Rightarrow> bool" where
  "validate_access_code access_code =
     (if access_code = [] then False
      else if length access_code < 4 \<or> length access_code > 10 then False
      else list_all (\<lambda>c. c \<in> set (ascii_uppercase @ digits)) access_code)"

section \<open>Hiding the answers, building the tasks\<close>

record frontend_option =
  fo_id :: string
  fo_text :: string

record frontend_question =
  fq_question_id :: string
  fq_question_type :: string
  fq_question_text :: string
  fq_options :: "frontend_option list"

definition hide_correct_answers :: "question list \<Rightarrow> frontend_question list" where
  "hide_correct_answers questions =
     map (\<lambda>question.
            \<lparr>fq_question_id = q_question_id question,
             fq_question_type = q_question_type question,
             fq_question_text = q_question_text question,
             fq_options = map (\<lambda>option. \<lparr>fo_id = opt_id option, fo_text = opt_text option\<rparr>)
                              (q_options question)\<rparr>)
         questions"

record user_answer =
  ua_question_id :: string
  ua_user_answer :: py_value

definition question_map :: "question list \<Rightarrow> string \<rightharpoonup> question" where
  "question_map cached_questions =
     fold (\<lambda>question m. m(q_question_id question \<mapsto> question)) cached_questions Map.empty"

fun build_tasks :: "(string \<rightharpoonup> question) \<Rightarrow> user_answer list \<Rightarrow> error + analysis_task list" where
  "build_tasks qm [] = Inr []"
| "build_tasks qm (ua # uas) =
     (case qm (ua_question_id ua) of
        None \<Rightarrow> Inl (UnknownQuestion (ua_question_id ua))
      | Some cached_question \<Rightarrow>
          (case build_tasks qm uas of
             Inl e \<Rightarrow> Inl e
           | Inr tasks \<Rightarrow>
               Inr (\<lparr>task_question_id = ua_question_id ua,
                     task_question_type = q_question_type cached_question,
                     task_question_text = q_question_text cached_question,
                     task_user_answer = ua_user_answer ua,
                     task_options = q_options cached_question\<rparr> # tasks)))"

definition build_analysis_tasks_from_cache ::
  "question list \<Rightarrow> user_answer list \<Rightarrow> error + analysis_task list" where
  "build_analysis_tasks_from_cache cached_questions user_answers =
     build_tasks (question_map cached_questions) user_answers"

section \<open>The two tiers: cache and durable store\<close>

text \<open>
  The value cached under \<open>SHARED_PAPER:<paper_id>\<close>, the durable \<open>papers\<close> row, the
  value cached under \<open>USER_ANSWER:<paper_id>:<user_id>\<close> and the durable
  \<open>user_answers\<close> row. A JSON column holds the value whose \<open>json.dumps\<close> text it
  stores; \<open>None\<close> is SQL \<open>NULL\<close>. Timestamps are their ISO texts. Expiry of cache
  entries is not modelled: an expired entry is an absent one.
\<close>

record cached_paper =
  cp_paper_id :: string
  cp_questions :: "question list"
  cp_total_count :: nat
  cp_access_code :: string
  cp_user_id :: "string option"
  cp_created_at :: string
  cp_documents :: "string list"
  cp_document_count :: nat

record paper_row =
  pr_paper_id :: string
  pr_questions :: "question list"
  pr_total_count :: nat
  pr_created_at :: "string option"
  pr_status :: string
  pr_access_code :: string
  pr_user_id :: "string option"

record answer_data =
  ad_paper_id :: string
  ad_user_id :: string
  ad_answers :: "user_answer list"
  ad_score :: int
  ad_correct_count :: nat
  ad_total_count :: nat
  ad_analysis_results :: "question_analysis list"
  ad_overall_feedback :: string

record cached_answer =
  ca_data :: answer_data
  ca_submitted_at :: string

record user_answer_row =
  uar_id :: nat
  uar_paper_id :: string
  uar_user_id :: string
  uar_answers :: "user_answer list option"
  uar_score :: int
  uar_correct_count :: nat
  uar_total_count :: nat
  uar_analysis_results :: "question_analysis list option"
  uar_overall_feedback :: string
  uar_submitted_at :: string

text \<open>
  The cache families are keyed by what follows their prefix: the paper id, the access
  code, and \<open>paper_id:user_id\<close>. The tables are lists of rows; \<open>first()\<close> of a query is
  the first matching row. \<open>next_answer_id\<close> is the auto-increment counter of
  \<open>user_answers\<close>.
\<close>

record state =
  shared_paper_cache :: "string \<rightharpoonup> cached_paper"
  access_code_cache :: "string \<rightharpoonup> string"
  user_answer_cache :: "string \<rightharpoonup> cached_answer"
  papers :: "paper_row list"
  user_answers :: "user_answer_row list"
  next_answer_id :: nat

subsection \<open>The cache processor\<close>

definition save_shared_paper :: "state \<Rightarrow> string \<Rightarrow> cached_paper \<Rightarrow> state" where
  "save_shared_paper st paper_id paper_data =
     st\<lparr>shared_paper_cache := (shared_paper_cache st)(paper_id \<mapsto> paper_data)\<rparr>"

definition get_shared_paper :: "state \<Rightarrow> string \<Rightarrow> cached_paper option" where
  "get_shared_paper st paper_id = shared_paper_cache st paper_id"

definition save_access_code_mapping :: "state \<Rightarrow> string \<Rightarrow> string \<Rightarrow> state" where
  "save_access_code_mapping st access_code paper_id =
     st\<lparr>access_code_cache := (access_code_cache st)(access_code \<mapsto> paper_id)\<rparr>"

text \<open>An empty cached value is falsy and reads as absent.\<close>

definition get_paper_id_by_access_code :: "state \<Rightarrow> string \<Rightarrow> string option" where
  "get_paper_id_by_access_code st access_code =
     (case access_code_cache st access_code of
        None \<Rightarrow> None
      | Some cached_data \<Rightarrow> if cached_data = [] then None else Some cached_data)"

definition user_answer_key :: "string \<Rightarrow> string \<Rightarrow> string" where
  "user_answer_key paper_id user_id = paper_id @ '':'' @ user_id"

definition save_user_answer :: "state \<Rightarrow> string \<Rightarrow> string \<Rightarrow> cached_answer \<Rightarrow> state" where
  "save_user_answer st paper_id user_id answer =
     st\<lparr>user_answer_cache := (user_answer_cache st)(user_answer_key paper_id user_id \<mapsto> answer)\<rparr>"

subsection \<open>The data access objects\<close>

fun update_first :: "('a \<Rightarrow> bool) \<Rightarrow> ('a \<Rightarrow> 'a) \<Rightarrow> 'a list \<Rightarrow> 'a list" where
  "update_first P f [] = []"
| "update_first P f (x # xs) = (if P x then f x # xs else x # update_first P f xs)"

definition dao_get_paper_by_id :: "state \<Rightarrow> string \<Rightarrow> paper_row option" where
  "dao_get_paper_by_id st paper_id = find (\<lambda>p. pr_paper_id p = paper_id) (papers st)"

definition dao_get_paper_by_access_code :: "state \<Rightarrow> string \<Rightarrow> paper_row option" where
  "dao_get_paper_by_access_code st access_code =
     find (\<lambda>p. pr_access_code p = access_code) (papers st)"

definition dao_get_paper_questions :: "state \<Rightarrow> string \<Rightarrow> question list option" where
  "dao_get_paper_questions st paper_id =
     (case dao_get_paper_by_id st paper_id of
        None \<Rightarrow> None
      | Some paper \<Rightarrow> Some (pr_questions paper))"

definition dao_update_paper_status :: "state \<Rightarrow> string \<Rightarrow> string \<Rightarrow> bool \<times> state" where
  "dao_update_paper_status st paper_id status =
     (case dao_get_paper_by_id st paper_id of
        None \<Rightarrow> (False, st)
      | Some paper \<Rightarrow>
          (True, st\<lparr>papers := update_first (\<lambda>p. pr_paper_id p = paper_id)
                                 (\<lambda>p. p\<lparr>pr_status := status\<rparr>) (papers st)\<rparr>))"

text \<open>
  \<open>delete_paper\<close> removes the paper's answer rows and the paper's row in one commit;
  for a missing paper nothing is committed. It evicts no cache entry.
\<close>

definition dao_delete_paper :: "state \<Rightarrow> string \<Rightarrow> bool \<times> state" where
  "dao_delete_paper st paper_id =
     (case dao_get_paper_by_id st paper_id of
        None \<Rightarrow> (False, st)
      | Some paper \<Rightarrow>
          (True, st\<lparr>user_answers := filter (\<lambda>row. uar_paper_id row \<noteq> paper_id) (user_answers st),
                    papers := remove1 paper (papers st)\<rparr>))"

definition is_answer_of :: "string \<Rightarrow> string \<Rightarrow> user_answer_row \<Rightarrow> bool" where
  "is_answer_of paper_id user_id row = (uar_paper_id row = paper_id \<and> uar_user_id row = user_id)"

definition dao_get_user_answer :: "state \<Rightarrow> string \<Rightarrow> string \<Rightarrow> user_answer_row option" where
  "dao_get_user_answer st paper_id user_id = find (is_answer_of paper_id user_id) (user_answers st)"

text \<open>
  \<open>create_user_answer\<close> adds a row; the two JSON columns are \<open>NULL\<close> when the list is
  empty; \<open>submitted_at\<close> is the server default, the store's clock at the insert.
\<close>

definition dao_create_user_answer :: "string \<Rightarrow> state \<Rightarrow> answer_data \<Rightarrow> state" where
  "dao_create_user_answer db_now st answer =
     st\<lparr>user_answers := user_answers st @
           [\<lparr>uar_id = next_answer_id st,
             uar_paper_id = ad_paper_id answer,
             uar_user_id = ad_user_id answer,
             uar_answers = (if ad_answers answer = [] then None else Some (ad_answers answer)),
             uar_score = ad_score answer,
             uar_correct_count = ad_correct_count answer,
             uar_total_count = ad_total_count answer,
             uar_analysis_results =
               (if ad_analysis_results answer = [] then None
                else Some (ad_analysis_results answer)),
             uar_overall_feedback = ad_overall_feedback answer,
             uar_submitted_at = db_now\<rparr>],
        next_answer_id := next_answer_id st + 1\<rparr>"

text \<open>
  \<open>update_user_answer\<close> assigns the six columns whose keys the dictionary holds (the
  caller's dictionary holds all six) on the row \<open>get_user_answer\<close> returns.
\<close>

definition assign_columns :: "answer_data \<Rightarrow> user_answer_row \<Rightarrow> user_answer_row" where
  "assign_columns answer row =
     row\<lparr>uar_answers := Some (ad_answers answer),
         uar_score := ad_score answer,
         uar_correct_count := ad_correct_count answer,
         uar_total_count := ad_total_count answer,
         uar_analysis_results := Some (ad_analysis_results answer),
         uar_overall_feedback := ad_overall_feedback answer\<rparr>"

definition dao_update_user_answer ::
  "state \<Rightarrow> string \<Rightarrow> string \<Rightarrow> answer_data \<Rightarrow> bool \<times> state" where
  "dao_update_user_answer st paper_id user_id answer =
     (case dao_get_user_answer st paper_id user_id of
        None \<Rightarrow> (False, st)
      | Some existing \<Rightarrow>
          (True, st\<lparr>user_answers :=
             update_first (is_answer_of paper_id user_id) (assign_columns answer)
               (user_answers st)\<rparr>))"

section \<open>The shared-paper service\<close>

record paper_view =
  pv_paper_id :: string
  pv_access_code :: string
  pv_questions :: "frontend_question list"
  pv_total_count :: nat
  pv_created_at :: string
  pv_documents :: "string list"
  pv_document_count :: nat

definition get_paper_by_id :: "state \<Rightarrow> string \<Rightarrow> paper_view option \<times> state" where
  "get_paper_by_id st paper_id =
     (case get_shared_paper st paper_id of
        Some cached_data \<Rightarrow>
          (let frontend_questions = hide_correct_answers (cp_questions cached_data)
           in (Some \<lparr>pv_paper_id = cp_paper_id cached_data,
                     pv_access_code = cp_access_code cached_data,
                     pv_questions = frontend_questions,
                     pv_total_count = length frontend_questions,
                     pv_created_at = cp_created_at cached_data,
                     pv_documents = cp_documents cached_data,
                     pv_document_count = cp_document_count cached_data\<rparr>, st))
      | None \<Rightarrow>
          (case dao_get_paper_by_id st paper_id of
             None \<Rightarrow> (None, st)
           | Some paper \<Rightarrow>
               if pr_status paper \<noteq> ''active'' then (None, st)
               else
                 (case dao_get_paper_questions st paper_id of
                    None \<Rightarrow> (None, st)
                  | Some questions \<Rightarrow>
                      if questions = [] then (None, st)
                      else
                        (let frontend_questions = hide_correct_answers questions;
                             cache_data =
                               \<lparr>cp_paper_id = pr_paper_id paper,
                                cp_questions = questions,
                                cp_total_count = pr_total_count paper,
                                cp_access_code = pr_access_code paper,
                                cp_user_id = pr_user_id paper,
                                cp_created_at =
                                  (case pr_created_at paper of Some t \<Rightarrow> t | None \<Rightarrow> []),
                                cp_documents = [],
                                cp_document_count = 0\<rparr>;
                             st1 = save_shared_paper st paper_id cache_data;
                             st2 = save_access_code_mapping st1 (pr_access_code paper) paper_id
                         in (Some \<lparr>pv_paper_id = pr_paper_id paper,
                                   pv_access_code = pr_access_code paper,
                                   pv_questions = frontend_questions,
                                   pv_total_count = length frontend_questions,
                                   pv_created_at = cp_created_at cache_data,
                                   pv_documents = cp_documents cache_data,
                                   pv_document_count = cp_document_count cache_data\<rparr>,
                             st2)))))"

definition get_paper_by_access_code :: "state \<Rightarrow> string \<Rightarrow> paper_view option \<times> state" where
  "get_paper_by_access_code st access_code =
     (case get_paper_id_by_access_code st access_code of
        Some paper_id \<Rightarrow> get_paper_by_id st paper_id
      | None \<Rightarrow>
          (case dao_get_paper_by_access_code st access_code of
             None \<Rightarrow> (None, st)
           | Some paper \<Rightarrow>
               if pr_status paper \<noteq> ''active'' then (None, st)
               else get_paper_by_id st (pr_paper_id paper)))"

text \<open>
  \<open>submit_answers\<close>. The three clock readings are the store's clock at an insert and the
  two \<open>datetime.now()\<close> calls, for the cached copy and for the receipt. A result of
  \<open>None\<close> from \<open>analyze_paper_answers\<close> makes \<open>result.get\<close> raise, and the
  \<open>except\<close> clause re-raises.
\<close>

record clock =
  clk_db_now :: string
  clk_cache_now :: string
  clk_receipt_now :: string

record receipt =
  rc_paper_id :: string
  rc_user_id :: string
  rc_submitted_at :: string

definition resolve_questions :: "state \<Rightarrow> string \<Rightarrow> error + question list" where
  "resolve_questions st paper_id =
     (case get_shared_paper st paper_id of
        None \<Rightarrow>
          (case dao_get_paper_questions st paper_id of
             None \<Rightarrow> Inl PaperNotFound
           | Some questions \<Rightarrow> if questions = [] then Inl PaperNotFound else Inr questions)
      | Some cached_data \<Rightarrow>
          if cp_questions cached_data = [] then Inl EmptyPaperContent
          else Inr (cp_questions cached_data))"

definition build_answer_data ::
  "string \<Rightarrow> string \<Rightarrow> user_answer list \<Rightarrow> analysis_output \<Rightarrow> answer_data" where
  "build_answer_data paper_id user_id answers result =
     \<lparr>ad_paper_id = paper_id,
      ad_user_id = user_id,
      ad_answers = answers,
      ad_score = total_score result,
      ad_correct_count = correct_count result,
      ad_total_count = total_count result,
      ad_analysis_results = analysis_results result,
      ad_overall_feedback = overall_feedback result\<rparr>"

definition store_answer :: "clock \<Rightarrow> state \<Rightarrow> answer_data \<Rightarrow> state" where
  "store_answer clk st answer =
     (let paper_id = ad_paper_id answer; user_id = ad_user_id answer;
          st1 = (case dao_get_user_answer st paper_id user_id of
                   Some existing_answer \<Rightarrow> snd (dao_update_user_answer st paper_id user_id answer)
                 | None \<Rightarrow> dao_create_user_answer (clk_db_now clk) st answer)
      in save_user_answer st1 paper_id user_id
           \<lparr>ca_data = answer, ca_submitted_at = clk_cache_now clk\<rparr>)"

definition submit_answers ::
  "clock \<Rightarrow> generator_outcome \<Rightarrow> state \<Rightarrow> string \<Rightarrow> string \<Rightarrow> user_answer list
     \<Rightarrow> (error + receipt) \<times> state" where
  "submit_answers clk outcome st paper_id user_id answers =
     (case resolve_questions st paper_id of
        Inl e \<Rightarrow> (Inl e, st)
      | Inr questions \<Rightarrow>
          (case build_analysis_tasks_from_cache questions answers of
             Inl e \<Rightarrow> (Inl e, st)
           | Inr analysis_tasks \<Rightarrow>
               (case analyze_paper_answers outcome analysis_tasks of
                  Inl e \<Rightarrow> (Inl e, st)
                | Inr None \<Rightarrow> (Inl AttributeError, st)
                | Inr (Some result) \<Rightarrow>
                    (let answer = build_answer_data paper_id user_id answers result
                     in (Inr \<lparr>rc_paper_id = paper_id,
                              rc_user_id = user_id,
                              rc_submitted_at = clk_receipt_now clk\<rparr>,
                         store_answer clk st answer)))))"

section \<open>Notions used to state the properties\<close>

text \<open>
  Overwriting the ground truth: every option's \<open>is_correct\<close> and \<open>explanation\<close> are
  replaced by fixed values, in the cache and in the durable store. Two states with the
  same image differ at most in those two fields.
\<close>

definition mask_option :: "quiz_option \<Rightarrow> quiz_option" where
  "mask_option option = option\<lparr>opt_is_correct := False, opt_explanation := None\<rparr>"

definition mask_question :: "question \<Rightarrow> question" where
  "mask_question q = q\<lparr>q_options := map mask_option (q_options q)\<rparr>"

definition mask_state :: "state \<Rightarrow> state" where
  "mask_state st =
     st\<lparr>shared_paper_cache :=
          (\<lambda>k. map_option (\<lambda>c. c\<lparr>cp_questions := map mask_question (cp_questions c)\<rparr>)
                           (shared_paper_cache st k)),
        papers := map (\<lambda>p. p\<lparr>pr_questions := map mask_question (pr_questions p)\<rparr>) (papers st)\<rparr>"

text \<open>The durable papers with their statuses replaced, each by \<open>f\<close> of its row.\<close>

definition with_statuses :: "(paper_row \<Rightarrow> string) \<Rightarrow> state \<Rightarrow> state" where
  "with_statuses f st = st\<lparr>papers := map (\<lambda>p. p\<lparr>pr_status := f p\<rparr>) (papers st)\<rparr>"


definition blank_results :: "user_answer_row \<Rightarrow> user_answer_row" where
  "blank_results row =
     row\<lparr>uar_answers := None, uar_score := 0, uar_correct_count := 0, uar_total_count := 0,
         uar_analysis_results := None, uar_overall_feedback := []\<rparr>"

section \<open>A sample paper\<close>

text \<open>
  One single-choice question whose correct option is B and one multiple-choice question
  whose correct options are A and C; a taker answers B and [A].
\<close>

definition sample_single :: question where
  "sample_single =
     \<lparr>q_question_id = ''1'', q_question_type = ''single_choice'', q_question_text = ''Q1'',
      q_options =
        [\<lparr>opt_id = ''A'', opt_text = ''a1'', opt_is_correct = False, opt_explanation = Some ''no''\<rparr>,
         \<lparr>opt_id = ''B'', opt_text = ''b1'', opt_is_correct = True, opt_explanation = Some ''yes''\<rparr>,
         \<lparr>opt_id = ''C'', opt_text = ''c1'', opt_is_correct = False, opt_explanation = None\<rparr>]\<rparr>"

definition sample_multiple :: question where
  "sample_multiple =
     \<lparr>q_question_id = ''2'', q_question_type = ''multiple_choice'', q_question_text = ''Q2'',
      q_options =
        [\<lparr>opt_id = ''A'', opt_text = ''a2'', opt_is_correct = True, opt_explanation = Some ''yes''\<rparr>,
         \<lparr>opt_id = ''B'', opt_text = ''b2'', opt_is_correct = False, opt_explanation = Some ''no''\<rparr>,
         \<lparr>opt_id = ''C'', opt_text = ''c2'', opt_is_correct = True, opt_explanation = None\<rparr>]\<rparr>"

definition sample_questions :: "question list" where
  "sample_questions = [sample_single, sample_multiple]"

definition sample_answers :: "user_answer list" where
  "sample_answers =
     [\<lparr>ua_question_id = ''1'', ua_user_answer = PyStr ''B''\<rparr>,
      \<lparr>ua_question_id = ''2'', ua_user_answer = PyList [''A'']\<rparr>]"

definition sample_answers2 :: "user_answer list" where
  "sample_answers2 =
     [\<lparr>ua_question_id = ''1'', ua_user_answer = PyStr ''A''\<rparr>,
      \<lparr>ua_question_id = ''2'', ua_user_answer = PyList [''A'', ''C'']\<rparr>]"

definition sample_single_task :: analysis_task where
  "sample_single_task =
     \<lparr>task_question_id = ''1'', task_question_type = ''single_choice'',
      task_question_text = ''Q1'', task_user_answer = PyStr ''B'',
      task_options = q_options sample_single\<rparr>"

definition sample_multiple_task :: analysis_task where
  "sample_multiple_task =
     \<lparr>task_question_id = ''2'', task_question_type = ''multiple_choice'',
      task_question_text = ''Q2'', task_user_answer = PyList [''A''],
      task_options = q_options sample_multiple\<rparr>"

text \<open>A multiple-choice question none of whose options is flagged correct, left unanswered.\<close>

definition no_correct_task :: analysis_task where
  "no_correct_task =
     \<lparr>task_question_id = ''3'', task_question_type = ''multiple_choice'',
      task_question_text = ''Q3'', task_user_answer = PyList [],
      task_options =
        [\<lparr>opt_id = ''A'', opt_text = ''a3'', opt_is_correct = False, opt_explanation = None\<rparr>,
         \<lparr>opt_id = ''B'', opt_text = ''b3'', opt_is_correct = False, opt_explanation = None\<rparr>]\<rparr>"

text \<open>
  The sample questions answered in other shapes: the string \<open>"A,C"\<close> with a tab and a
  space before it and U+00A0 and a line feed after it, a value that is neither a string
  nor a list, the string \<open>"A,B"\<close>; and for the single-choice question the string
  \<open>"B"\<close> between U+2003 and U+3000, the list [A, B], and the id Z that no option has.
\<close>

definition spaced_multiple_task :: analysis_task where
  "spaced_multiple_task =
     sample_multiple_task
       \<lparr>task_user_answer := PyStr [CHR 0x09, CHR 0x20, CHR ''A'', CHR '','', CHR ''C'', CHR 0xC2, CHR 0xA0, CHR 0x0A]\<rparr>"

definition other_multiple_task :: analysis_task where
  "other_multiple_task = sample_multiple_task\<lparr>task_user_answer := PyOther ''7''\<rparr>"

definition wrong_multiple_task :: analysis_task where
  "wrong_multiple_task = sample_multiple_task\<lparr>task_user_answer := PyStr ''A,B''\<rparr>"

definition spaced_single_task :: analysis_task where
  "spaced_single_task =
     sample_single_task\<lparr>task_user_answer := PyStr [CHR 0xE2, CHR 0x80, CHR 0x83, CHR ''B'', CHR 0xE3, CHR 0x80, CHR 0x80]\<rparr>"

definition list_single_task :: analysis_task where
  "list_single_task = sample_single_task\<lparr>task_user_answer := PyList [''A'', ''B'']\<rparr>"

definition absent_single_task :: analysis_task where
  "absent_single_task = sample_single_task\<lparr>task_user_answer := PyStr ''Z''\<rparr>"

text \<open>A single-choice question in which two options carry the id A, the second flagged correct.\<close>

definition duplicate_id_task :: analysis_task where
  "duplicate_id_task =
     \<lparr>task_question_id = ''4'', task_question_type = ''single_choice'',
      task_question_text = ''Q4'', task_user_answer = PyStr ''A'',
      task_options =
        [\<lparr>opt_id = ''A'', opt_text = ''a4'', opt_is_correct = False, opt_explanation = None\<rparr>,
         \<lparr>opt_id = ''A'', opt_text = ''b4'', opt_is_correct = True, opt_explanation = None\<rparr>]\<rparr>"

definition sample_paper_id :: string where
  "sample_paper_id = ''PAPER_20250101_0A1B2C3D''"

definition sample_access_code :: string where
  "sample_access_code = ''ABC234''"

definition sample_row :: paper_row where
  "sample_row =
     \<lparr>pr_paper_id = sample_paper_id, pr_questions = sample_questions, pr_total_count = 2,
      pr_created_at = Some ''2025-01-01T08:00:00'', pr_status = ''active'',
      pr_access_code = sample_access_code, pr_user_id = Some ''owner''\<rparr>"

definition empty_state :: state where
  "empty_state =
     \<lparr>shared_paper_cache = Map.empty, access_code_cache = Map.empty,
      user_answer_cache = Map.empty, papers = [], user_answers = [], next_answer_id = 1\<rparr>"

text \<open>The paper in the durable store only; then also cached by a read; then deactivated.\<close>

definition stored_state :: state where
  "stored_state = empty_state\<lparr>papers := [sample_row]\<rparr>"

definition cached_state :: state where
  "cached_state = snd (get_paper_by_id stored_state sample_paper_id)"

definition deactivated_cached_state :: state where
  "deactivated_cached_state = snd (dao_update_paper_status cached_state sample_paper_id ''inactive'')"

definition deactivated_stored_state :: state where
  "deactivated_stored_state = snd (dao_update_paper_status stored_state sample_paper_id ''inactive'')"

text \<open>The cached paper with its durable row deleted.\<close>

definition orphaned_state :: state where
  "orphaned_state = snd (dao_delete_paper cached_state sample_paper_id)"

text \<open>The stored paper with the ground truth of its first question changed.\<close>

definition altered_state :: state where
  "altered_state =
     empty_state\<lparr>papers :=
       [sample_row\<lparr>pr_questions :=
          [sample_single\<lparr>q_options :=
             [\<lparr>opt_id = ''A'', opt_text = ''a1'', opt_is_correct = True, opt_explanation = None\<rparr>,
              \<lparr>opt_id = ''B'', opt_text = ''b1'', opt_is_correct = False, opt_explanation = Some ''x''\<rparr>,
              \<lparr>opt_id = ''C'', opt_text = ''c1'', opt_is_correct = False, opt_explanation = None\<rparr>]\<rparr>,
           sample_multiple]\<rparr>]\<rparr>"

text \<open>What a read of the sample paper caches, and what it returns.\<close>

definition sample_cached :: cached_paper where
  "sample_cached =
     \<lparr>cp_paper_id = sample_paper_id, cp_questions = sample_questions, cp_total_count = 2,
      cp_access_code = sample_access_code, cp_user_id = Some ''owner'',
      cp_created_at = ''2025-01-01T08:00:00'', cp_documents = [], cp_document_count = 0\<rparr>"

definition sample_view :: paper_view where
  "sample_view =
     \<lparr>pv_paper_id = sample_paper_id, pv_access_code = sample_access_code,
      pv_questions = hide_correct_answers sample_questions, pv_total_count = 2,
      pv_created_at = ''2025-01-01T08:00:00'', pv_documents = [], pv_document_count = 0\<rparr>"

definition sample_clock :: clock where
  "sample_clock =
     \<lparr>clk_db_now = ''2025-01-02T09:00:00'', clk_cache_now = ''2025-01-02T09:00:01'',
      clk_receipt_now = ''2025-01-02T09:00:02''\<rparr>"

definition later_clock :: clock where
  "later_clock =
     \<lparr>clk_db_now = ''2025-01-03T10:00:00'', clk_cache_now = ''2025-01-03T10:00:01'',
      clk_receipt_now = ''2025-01-03T10:00:02''\<rparr>"

text \<open>A taker submits to the stored paper, then submits other answers.\<close>

definition once_submitted_state :: state where
  "once_submitted_state =
     snd (submit_answers sample_clock (Results []) stored_state sample_paper_id ''taker''
            sample_answers)"

definition twice_submitted_state :: state where
  "twice_submitted_state =
     snd (submit_answers later_clock (Results []) once_submitted_state sample_paper_id ''taker''
            sample_answers2)"

section \<open>Normalising the answers\<close>

lemma user_options_shape:
  "user_options a =
     (case a of
        PyStr s \<Rightarrow> set (py_split CHR '','' (py_strip s))
      | PyList xs \<Rightarrow> set xs
      | PyOther v \<Rightarrow> {})"
  by (cases a) simp_all

lemma single_answer_shape:
  "single_answer a =
     (case a of
        PyList xs \<Rightarrow> (case xs of [] \<Rightarrow> [] | x # _ \<Rightarrow> x)
      | PyStr s \<Rightarrow> py_strip s
      | PyOther v \<Rightarrow> py_strip v)"
  by (cases a) simp_all

lemma correct_ids_set:
  "set (correct_ids os) = opt_id ` {x \<in> set os. opt_is_correct x}"
  by (auto simp: correct_ids_def)

text \<open>
  What stripping and splitting do in general: \<open>py_strip\<close> removes whitespace code points
  from both ends and leaves none at either end; joining the parts of \<open>py_split\<close> with
  the separator gives the string back, and no part contains the separator.
\<close>

lemma strip_left_prefix:
  "\<exists>ps. set ps \<subseteq> set ws \<and> s = concat ps @ strip_left ws s"
proof (induction ws s rule: strip_left.induct)
  case (1 ws s)
  show ?case
  proof (cases "find (\<lambda>w. w \<noteq> [] \<and> take (length w) s = w) ws")
    case None
    then have "strip_left ws s = s" by simp
    then have "set [] \<subseteq> set ws \<and> s = concat [] @ strip_left ws s" by simp
    then show ?thesis by blast
  next
    case (Some w)
    then have w: "w \<in> set ws" "take (length w) s = w"
      by (auto simp: find_Some_iff)
    from 1 [OF Some] obtain ps where
      ps: "set ps \<subseteq> set ws" "drop (length w) s = concat ps @ strip_left ws (drop (length w) s)"
      by blast
    have r: "strip_left ws s = strip_left ws (drop (length w) s)"
      using Some by simp
    have "s = take (length w) s @ drop (length w) s" by simp
    then have "s = concat (w # ps) @ strip_left ws s"
      using w(2) ps(2) r by (metis append.assoc concat.simps(2))
    moreover have "set (w # ps) \<subseteq> set ws" using w(1) ps(1) by simp
    ultimately show ?thesis by blast
  qed
qed

lemma strip_left_done:
  "find (\<lambda>w. w \<noteq> [] \<and> take (length w) (strip_left ws s) = w) ws = None"
proof (induction ws s rule: strip_left.induct)
  case (1 ws s)
  show ?case
  proof (cases "find (\<lambda>w. w \<noteq> [] \<and> take (length w) s = w) ws")
    case None
    then show ?thesis by simp
  next
    case (Some w)
    then show ?thesis using 1 [OF Some] by simp
  qed
qed

lemma py_join_cons: "py_join sep ((c # w) # ws) = c # py_join sep (w # ws)"
  by (cases ws) simp_all

lemma py_split_join: "py_join [sep] (py_split sep s) = s"
proof (induction s)
  case Nil
  then show ?case by simp
next
  case (Cons c cs)
  then show ?case
    by (cases "py_split sep cs") (auto simp: py_join_cons split: list.splits)
qed

lemma py_split_nonempty: "py_split sep s \<noteq> []"
  by (induction s) (auto split: list.splits)

lemma py_split_no_sep: "w \<in> set (py_split sep s) \<Longrightarrow> sep \<notin> set w"
  by (induction s arbitrary: w) (auto split: list.splits if_splits)

lemma strip_left_no_prefix:
  "w \<in> set ws \<Longrightarrow> w \<noteq> [] \<Longrightarrow> strip_left ws s \<noteq> w @ r"
proof
  assume w: "w \<in> set ws" "w \<noteq> []" and eq: "strip_left ws s = w @ r"
  have "\<not> (w \<noteq> [] \<and> take (length w) (strip_left ws s) = w)"
    using strip_left_done [of ws s] w(1) unfolding find_None_iff by blast
  then show False using w(2) eq by simp
qed

lemma py_whitespace_nonempty: "[] \<notin> set py_whitespace"
  by (simp add: py_whitespace_def)

lemma py_strip_parts:
  "\<exists>ps qs. set ps \<subseteq> set py_whitespace \<and> set qs \<subseteq> set py_whitespace \<and>
           s = concat ps @ py_strip s @ concat qs"
proof -
  let ?m = "strip_left py_whitespace s"
  let ?n = "strip_left (map rev py_whitespace) (rev ?m)"
  obtain ps where ps: "set ps \<subseteq> set py_whitespace" "s = concat ps @ ?m"
    using strip_left_prefix [of py_whitespace s] by blast
  obtain qs where qs: "set qs \<subseteq> set (map rev py_whitespace)" "rev ?m = concat qs @ ?n"
    using strip_left_prefix [of "map rev py_whitespace" "rev ?m"] by blast
  have "?m = rev (concat qs @ ?n)"
    using qs(2) by (metis rev_rev_ident)
  then have m: "?m = py_strip s @ concat (map rev (rev qs))"
    by (simp add: py_strip_def rev_concat)
  have "set (map rev (rev qs)) \<subseteq> set py_whitespace"
    using qs(1) by auto
  then show ?thesis
    using ps m by (metis)
qed

lemma py_strip_ends:
  assumes "w \<in> set py_whitespace"
  shows "py_strip s \<noteq> w @ r \<and> py_strip s \<noteq> l @ w"
proof -
  let ?m = "strip_left py_whitespace s"
  let ?n = "strip_left (map rev py_whitespace) (rev ?m)"
  have ne: "w \<noteq> []" using assms py_whitespace_nonempty by auto
  have n: "py_strip s = rev ?n" by (simp add: py_strip_def)
  have right: "py_strip s \<noteq> l @ w"
  proof
    assume "py_strip s = l @ w"
    then have "?n = rev w @ rev l" unfolding n by (metis rev_append rev_rev_ident)
    moreover have "rev w \<in> set (map rev py_whitespace)" "rev w \<noteq> []"
      using assms ne by auto
    ultimately show False using strip_left_no_prefix by blast
  qed
  obtain qs where "rev ?m = concat qs @ ?n"
    using strip_left_prefix [of "map rev py_whitespace" "rev ?m"] by blast
  then have "?m = rev (concat qs @ ?n)" by (metis rev_rev_ident)
  then have m: "?m = py_strip s @ rev (concat qs)" by (simp add: n)
  have left: "py_strip s \<noteq> w @ r"
  proof
    assume "py_strip s = w @ r"
    then have "?m = w @ (r @ rev (concat qs))" using m by simp
    then show False using strip_left_no_prefix [OF assms ne] by blast
  qed
  show ?thesis using left right by simp
qed

lemma py_strip_A: "py_strip ''A'' = ''A''"
  by (simp add: py_strip_def py_whitespace_def)

lemma py_strip_B: "py_strip ''B'' = ''B''"
  by (simp add: py_strip_def py_whitespace_def)

lemma py_strip_Z: "py_strip ''Z'' = ''Z''"
  by (simp add: py_strip_def py_whitespace_def)

lemma py_strip_A_B: "py_strip ''A,B'' = ''A,B''"
  by (simp add: py_strip_def py_whitespace_def)

lemma py_strip_wide_space: "py_strip [CHR 0xE2, CHR 0x80, CHR 0x83, CHR ''B'', CHR 0xE3, CHR 0x80, CHR 0x80] = ''B''"
  by (simp add: py_strip_def py_whitespace_def)

lemma py_strip_both_ends:
  "py_strip [CHR 0x09, CHR 0x20, CHR ''A'', CHR '','', CHR ''C'', CHR 0xC2, CHR 0xA0, CHR 0x0A] = ''A,C''"
  by (simp add: py_strip_def py_whitespace_def)

lemma sample_multiple_correct:
  "opt_id ` {x \<in> set (task_options sample_multiple_task). opt_is_correct x} = {''A'', ''C''}"
  unfolding correct_ids_set [symmetric]
  by (simp add: sample_multiple_task_def sample_multiple_def correct_ids_def)

section \<open>Scoring of multiple-choice questions\<close>

lemma multiple_not_single: "is_multiple_choice qt \<Longrightarrow> \<not> is_single_choice qt"
  by (auto simp: is_multiple_choice_def is_single_choice_def label_single_def label_multiple_def)

lemma finite_user_options: "finite (user_options a)"
  by (cases a) simp_all

lemma score_multiple_cases:
  "score_multiple ct a os =
     (let U = user_options a; C = set (correct_ids os) in
      \<lparr>si_is_correct = (U \<subseteq> C \<and> (U = C \<or> U \<noteq> {})),
       si_score = (if \<not> U \<subseteq> C then 0 else if U = C then 10 else if U \<noteq> {} then 5 else 0),
       si_correct_answer = PyList (sorted_list_of_set C),
       si_explanation = Some (msg_correct_prefix @ py_join '', '' (sorted_list_of_set C)),
       si_chinese_type = ct\<rparr>)"
proof -
  let ?U = "user_options a" and ?C = "set (correct_ids os)"
  have fU: "finite ?U" by (rule finite_user_options)
  have fC: "finite ?C" by simp
  have w: "(card (?U - ?C) > 0) = (\<not> ?U \<subseteq> ?C)"
    using fU by (simp add: card_gt_0_iff)
  have a: "(card (?C - ?U) = 0) = (?C \<subseteq> ?U)"
    using fC by simp
  have i: "?U \<subseteq> ?C \<Longrightarrow> (card (?U \<inter> ?C) > 0) = (?U \<noteq> {})"
    using fU by (simp add: card_gt_0_iff Int_absorb2)
  have e: "?U \<subseteq> ?C \<Longrightarrow> (?C \<subseteq> ?U \<and> card ?U = card ?C) = (?U = ?C)"
    by auto
  show ?thesis
    unfolding score_multiple_def Let_def w a
    using i e by (auto simp: base_score_def)
qed

text \<open>
  Claim C1, as amended. For a multiple-choice question let \<open>U\<close> be the normalised user
  set (a string stripped of surrounding whitespace and then split at commas, a list as it
  is, anything else empty) and \<open>C\<close> the set of the ids of the options flagged correct.
  Any id of \<open>U\<close> outside \<open>C\<close> gives score 0, incorrect; \<open>U = C\<close> gives score 10,
  correct; a non-empty strict subset gives score 5, correct; an empty intersection gives
  score 0, incorrect, unless \<open>U = C\<close> (both empty), where the equality rule has already
  awarded the full score.
\<close>

theorem multiple_choice_scoring:
  assumes "is_multiple_choice (task_question_type t)"
  shows "let U = (case task_user_answer t of
                    PyStr s \<Rightarrow> set (py_split CHR '','' (py_strip s))
                  | PyList xs \<Rightarrow> set xs
                  | PyOther v \<Rightarrow> {});
             C = opt_id ` {x \<in> set (task_options t). opt_is_correct x};
             r = calculate_question_score t
         in (\<not> U \<subseteq> C \<longrightarrow> si_score r = 0 \<and> \<not> si_is_correct r) \<and>
            (U = C \<longrightarrow> si_score r = 10 \<and> si_is_correct r) \<and>
            (U \<subset> C \<and> U \<noteq> {} \<longrightarrow> si_score r = 5 \<and> si_is_correct r) \<and>
            (U \<inter> C = {} \<and> U \<noteq> C \<longrightarrow> si_score r = 0 \<and> \<not> si_is_correct r)"
proof -
  have ns: "\<not> is_single_choice (task_question_type t)"
    using assms by (rule multiple_not_single)
  have r: "calculate_question_score t =
             score_multiple (chinese_type_of (task_question_type t)) (task_user_answer t) (task_options t)"
    using assms ns by (simp add: calculate_question_score_def)
  show ?thesis
    unfolding r score_multiple_cases Let_def
      user_options_shape [symmetric] correct_ids_set [symmetric]
    by auto
qed

text \<open>
  The theorem at the sample question, whose correct set is {A, C}: the string
  \<open>"A,C"\<close> with whitespace around it (a tab, a space, U+00A0, a line feed) is the full
  set, the list [A] a strict subset, a value of another type the empty set, and the
  string \<open>"A,B"\<close> contains a wrong id.
\<close>

theorem multiple_choice_scoring_witness:
  "is_multiple_choice (task_question_type spaced_multiple_task) \<and>
   si_score (calculate_question_score spaced_multiple_task) = 10 \<and>
   si_is_correct (calculate_question_score spaced_multiple_task) \<and>
   is_multiple_choice (task_question_type sample_multiple_task) \<and>
   si_score (calculate_question_score sample_multiple_task) = 5 \<and>
   si_is_correct (calculate_question_score sample_multiple_task) \<and>
   is_multiple_choice (task_question_type other_multiple_task) \<and>
   si_score (calculate_question_score other_multiple_task) = 0 \<and>
   \<not> si_is_correct (calculate_question_score other_multiple_task) \<and>
   is_multiple_choice (task_question_type wrong_multiple_task) \<and>
   si_score (calculate_question_score wrong_multiple_task) = 0 \<and>
   \<not> si_is_correct (calculate_question_score wrong_multiple_task)"
proof -
  have ty: "task_question_type sample_multiple_task = ''multiple_choice''"
    by (simp add: sample_multiple_task_def)
  have h: "is_multiple_choice (task_question_type sample_multiple_task)"
    by (simp add: ty is_multiple_choice_def)
  have h1: "is_multiple_choice (task_question_type spaced_multiple_task)"
    using h by (simp add: spaced_multiple_task_def)
  have h2: "is_multiple_choice (task_question_type other_multiple_task)"
    using h by (simp add: other_multiple_task_def)
  have h3: "is_multiple_choice (task_question_type wrong_multiple_task)"
    using h by (simp add: wrong_multiple_task_def)
  note c = sample_multiple_correct
  have ne: "{''A''} \<noteq> {''A'', ''C''}" "{''A''} \<subseteq> {''A'', ''C''}" "''B'' \<notin> {''A'', ''C''}"
    by auto
  have a: "si_score (calculate_question_score spaced_multiple_task) = 10 \<and>
           si_is_correct (calculate_question_score spaced_multiple_task)"
    using multiple_choice_scoring [OF h1]
    by (simp add: spaced_multiple_task_def Let_def c py_strip_both_ends insert_commute)
  have b: "si_score (calculate_question_score sample_multiple_task) = 5 \<and>
           si_is_correct (calculate_question_score sample_multiple_task)"
  proof -
    have u: "task_user_answer sample_multiple_task = PyList [''A'']"
      by (simp add: sample_multiple_task_def)
    show ?thesis
      using multiple_choice_scoring [OF h] ne unfolding Let_def c u
      by (simp add: psubset_eq)
  qed
  have d: "si_score (calculate_question_score other_multiple_task) = 0 \<and>
           \<not> si_is_correct (calculate_question_score other_multiple_task)"
    using multiple_choice_scoring [OF h2]
    by (simp add: other_multiple_task_def Let_def c)
  have e: "si_score (calculate_question_score wrong_multiple_task) = 0 \<and>
           \<not> si_is_correct (calculate_question_score wrong_multiple_task)"
    using multiple_choice_scoring [OF h3] ne
    by (simp add: wrong_multiple_task_def Let_def c py_strip_A_B)
  show ?thesis
    using h h1 h2 h3 a b d e by simp
qed

text \<open>
  Claim C1 as stated fails in two places. Where no option is flagged correct and nothing
  is chosen, the intersection is empty, yet the score is 10 and the answer counts as
  correct. And a string is not only split at commas: split at its commas alone, the
  string \<open>"A,C"\<close> with whitespace around it holds ids that are not correct ones, yet it
  scores 10, because the string is stripped first.
\<close>

theorem empty_answer_counterexample:
  "is_multiple_choice (task_question_type no_correct_task) \<and>
   task_user_answer no_correct_task = PyList [] \<and>
   set [] \<inter> opt_id ` {x \<in> set (task_options no_correct_task). opt_is_correct x} = {} \<and>
   si_score (calculate_question_score no_correct_task) = 10 \<and>
   si_is_correct (calculate_question_score no_correct_task) \<and>
   is_multiple_choice (task_question_type spaced_multiple_task) \<and>
   task_user_answer spaced_multiple_task =
     PyStr [CHR 0x09, CHR 0x20, CHR ''A'', CHR '','', CHR ''C'', CHR 0xC2, CHR 0xA0, CHR 0x0A] \<and>
   \<not> set (py_split CHR '','' [CHR 0x09, CHR 0x20, CHR ''A'', CHR '','', CHR ''C'', CHR 0xC2, CHR 0xA0, CHR 0x0A])
       \<subseteq> opt_id ` {x \<in> set (task_options spaced_multiple_task). opt_is_correct x} \<and>
   si_score (calculate_question_score spaced_multiple_task) = 10 \<and>
   si_is_correct (calculate_question_score spaced_multiple_task)"
proof -
  have c: "correct_ids (task_options no_correct_task) = []"
    by (simp add: no_correct_task_def correct_ids_def)
  have u: "user_options (task_user_answer no_correct_task) = {}"
    by (simp add: no_correct_task_def)
  have t: "task_question_type no_correct_task = ''multiple_choice''"
    by (simp add: no_correct_task_def)
  have first: "is_multiple_choice (task_question_type no_correct_task) \<and>
      task_user_answer no_correct_task = PyList [] \<and>
      si_score (calculate_question_score no_correct_task) = 10 \<and>
      si_is_correct (calculate_question_score no_correct_task)"
    by (simp add: calculate_question_score_def score_multiple_cases c u t
        is_multiple_choice_def is_single_choice_def label_single_def)
       (simp add: no_correct_task_def)
  have c2: "correct_ids (task_options sample_multiple_task) = [''A'', ''C'']"
    by (simp add: sample_multiple_task_def sample_multiple_def correct_ids_def)
  have t2: "task_question_type sample_multiple_task = ''multiple_choice''"
    by (simp add: sample_multiple_task_def)
  have second: "is_multiple_choice (task_question_type spaced_multiple_task) \<and>
      task_user_answer spaced_multiple_task =
        PyStr [CHR 0x09, CHR 0x20, CHR ''A'', CHR '','', CHR ''C'', CHR 0xC2, CHR 0xA0, CHR 0x0A] \<and>
      si_score (calculate_question_score spaced_multiple_task) = 10 \<and>
      si_is_correct (calculate_question_score spaced_multiple_task)"
    by (simp add: spaced_multiple_task_def calculate_question_score_def score_multiple_cases
        c2 t2 py_strip_both_ends is_multiple_choice_def is_single_choice_def label_single_def
        insert_commute)
  have split: "\<not> set (py_split CHR '','' [CHR 0x09, CHR 0x20, CHR ''A'', CHR '','', CHR ''C'', CHR 0xC2, CHR 0xA0, CHR 0x0A])
       \<subseteq> opt_id ` {x \<in> set (task_options spaced_multiple_task). opt_is_correct x}"
    unfolding correct_ids_set [symmetric]
    by (simp add: spaced_multiple_task_def c2)
  show ?thesis
    using first second split by simp
qed

section \<open>Scoring of single-choice questions\<close>

lemma find_distinct_id:
  "distinct (map opt_id os) \<Longrightarrow> x \<in> set os \<Longrightarrow> find (\<lambda>y. opt_id y = opt_id x) os = Some x"
  by (induction os) (auto simp: image_iff)

lemma find_absent_id:
  "a \<notin> opt_id ` set os \<Longrightarrow> find (\<lambda>y. opt_id y = a) os = None"
  by (induction os) auto

lemma find_first_id:
  "a \<notin> opt_id ` set before \<Longrightarrow> opt_id x = a \<Longrightarrow>
   find (\<lambda>y. opt_id y = a) (before @ x # after) = Some x"
  by (induction before) auto

lemma first_correct_id:
  "(case correct_ids os of [] \<Rightarrow> [] | c # _ \<Rightarrow> c) =
   (case find opt_is_correct os of None \<Rightarrow> [] | Some x \<Rightarrow> opt_id x)"
  by (induction os) (auto simp: correct_ids_def)

lemma score_single_hit:
  "find (\<lambda>y. opt_id y = single_answer a) os = Some x \<Longrightarrow>
   si_score (score_single ct a os) = (if opt_is_correct x then 10 else 0) \<and>
   si_is_correct (score_single ct a os) = opt_is_correct x"
  by (simp add: score_single_def Let_def base_score_def)

lemma score_single_miss:
  "find (\<lambda>y. opt_id y = single_answer a) os = None \<Longrightarrow>
   si_score (score_single ct a os) = 0 \<and> \<not> si_is_correct (score_single ct a os) \<and>
   si_explanation (score_single ct a os) = Some msg_format_error"
  by (simp add: score_single_def Let_def)

lemma score_single_correct_answer:
  "si_correct_answer (score_single ct a os) =
     PyStr (case find opt_is_correct os of None \<Rightarrow> [] | Some x \<Rightarrow> opt_id x)"
  by (simp add: score_single_def Let_def first_correct_id split: option.splits)

text \<open>
  Claim C5, as amended. For a single-choice question the chosen id is the first element
  of a list answer (the empty string for the empty list), otherwise the stripped string
  form of the answer. If the option ids are unique within the question, choosing the
  option flagged correct gives score 10 and correct, and choosing any other existing
  option gives score 0 and incorrect; whether or not they are unique, the first option
  that carries the chosen id decides in this way. An id absent from the options gives
  score 0, incorrect and the format-error explanation. The reported correct answer is the
  id of the first option flagged correct, or the empty string when none is.
\<close>

theorem single_choice_scoring:
  assumes "is_single_choice (task_question_type t)"
  shows "let chosen = (case task_user_answer t of
                         PyList xs \<Rightarrow> (case xs of [] \<Rightarrow> [] | x # _ \<Rightarrow> x)
                       | PyStr s \<Rightarrow> py_strip s
                       | PyOther v \<Rightarrow> py_strip v);
             options = task_options t;
             r = calculate_question_score t
         in (distinct (map opt_id options) \<longrightarrow>
               (\<forall>x \<in> set options. opt_id x = chosen \<longrightarrow>
                  (opt_is_correct x \<longrightarrow> si_score r = 10 \<and> si_is_correct r) \<and>
                  (\<not> opt_is_correct x \<longrightarrow> si_score r = 0 \<and> \<not> si_is_correct r))) \<and>
            (\<forall>before x after.
               options = before @ x # after \<and> chosen \<notin> opt_id ` set before \<and> opt_id x = chosen \<longrightarrow>
                  (opt_is_correct x \<longrightarrow> si_score r = 10 \<and> si_is_correct r) \<and>
                  (\<not> opt_is_correct x \<longrightarrow> si_score r = 0 \<and> \<not> si_is_correct r)) \<and>
            (chosen \<notin> opt_id ` set options \<longrightarrow>
               si_score r = 0 \<and> \<not> si_is_correct r \<and> si_explanation r = Some msg_format_error) \<and>
            si_correct_answer r =
              PyStr (case find opt_is_correct options of None \<Rightarrow> [] | Some x \<Rightarrow> opt_id x)"
proof -
  let ?os = "task_options t" and ?a = "single_answer (task_user_answer t)"
  let ?r = "calculate_question_score t"
  have r: "?r = score_single (chinese_type_of (task_question_type t)) (task_user_answer t) ?os"
    using assms by (simp add: calculate_question_score_def)
  have unique: "si_score ?r = (if opt_is_correct x then 10 else 0) \<and>
                si_is_correct ?r = opt_is_correct x"
    if "distinct (map opt_id ?os)" "x \<in> set ?os" "opt_id x = ?a" for x
    unfolding r using find_distinct_id [OF that(1,2)] that(3) by (intro score_single_hit) simp
  have first: "si_score ?r = (if opt_is_correct x then 10 else 0) \<and>
               si_is_correct ?r = opt_is_correct x"
    if "?os = before @ x # after" "?a \<notin> opt_id ` set before" "opt_id x = ?a" for before x after
    unfolding r using find_first_id [OF that(2,3), of after] that(1) by (intro score_single_hit) simp
  have miss: "si_score ?r = 0 \<and> \<not> si_is_correct ?r \<and> si_explanation ?r = Some msg_format_error"
    if "?a \<notin> opt_id ` set ?os"
    unfolding r using find_absent_id [OF that] by (rule score_single_miss)
  have ca: "si_correct_answer ?r =
              PyStr (case find opt_is_correct ?os of None \<Rightarrow> [] | Some x \<Rightarrow> opt_id x)"
    unfolding r by (rule score_single_correct_answer)
  have u: "\<forall>x \<in> set ?os. opt_id x = ?a \<longrightarrow>
             (opt_is_correct x \<longrightarrow> si_score ?r = 10 \<and> si_is_correct ?r) \<and>
             (\<not> opt_is_correct x \<longrightarrow> si_score ?r = 0 \<and> \<not> si_is_correct ?r)"
    if "distinct (map opt_id ?os)"
    using unique [OF that] by auto
  have f: "\<forall>before x after.
             ?os = before @ x # after \<and> ?a \<notin> opt_id ` set before \<and> opt_id x = ?a \<longrightarrow>
               (opt_is_correct x \<longrightarrow> si_score ?r = 10 \<and> si_is_correct ?r) \<and>
               (\<not> opt_is_correct x \<longrightarrow> si_score ?r = 0 \<and> \<not> si_is_correct ?r)"
    using first by (metis zero_neq_numeral)
  show ?thesis
    unfolding Let_def single_answer_shape [symmetric]
    using u f miss ca by blast
qed

text \<open>
  The theorem at the sample question, whose option B is the one flagged correct: the
  string \<open>"B"\<close> between U+2003 and U+3000 chooses B, the list [A, B] chooses A, and no
  option has the id Z.
\<close>

theorem single_choice_scoring_witness:
  "is_single_choice (task_question_type spaced_single_task) \<and>
   distinct (map opt_id (task_options spaced_single_task)) \<and>
   si_score (calculate_question_score spaced_single_task) = 10 \<and>
   si_is_correct (calculate_question_score spaced_single_task) \<and>
   si_correct_answer (calculate_question_score spaced_single_task) = PyStr ''B'' \<and>
   is_single_choice (task_question_type list_single_task) \<and>
   si_score (calculate_question_score list_single_task) = 0 \<and>
   \<not> si_is_correct (calculate_question_score list_single_task) \<and>
   is_single_choice (task_question_type absent_single_task) \<and>
   si_score (calculate_question_score absent_single_task) = 0 \<and>
   \<not> si_is_correct (calculate_question_score absent_single_task) \<and>
   si_explanation (calculate_question_score absent_single_task) = Some msg_format_error"
proof -
  have os: "task_options sample_single_task = q_options sample_single"
    by (simp add: sample_single_task_def)
  have h: "is_single_choice (task_question_type sample_single_task)"
    by (simp add: sample_single_task_def is_single_choice_def)
  have h1: "is_single_choice (task_question_type spaced_single_task)"
    using h by (simp add: spaced_single_task_def)
  have h2: "is_single_choice (task_question_type list_single_task)"
    using h by (simp add: list_single_task_def)
  have h3: "is_single_choice (task_question_type absent_single_task)"
    using h by (simp add: absent_single_task_def)
  have d: "distinct (map opt_id (task_options spaced_single_task))"
    by (simp add: spaced_single_task_def os sample_single_def)
  have a: "si_score (calculate_question_score spaced_single_task) = 10 \<and>
           si_is_correct (calculate_question_score spaced_single_task) \<and>
           si_correct_answer (calculate_question_score spaced_single_task) = PyStr ''B''"
    using single_choice_scoring [OF h1] d unfolding Let_def
    by (simp add: spaced_single_task_def py_strip_wide_space os sample_single_def)
  have b: "si_score (calculate_question_score list_single_task) = 0 \<and>
           \<not> si_is_correct (calculate_question_score list_single_task)"
    using single_choice_scoring [OF h2] d unfolding Let_def
    by (simp add: list_single_task_def spaced_single_task_def os sample_single_def)
  have c: "si_score (calculate_question_score absent_single_task) = 0 \<and>
           \<not> si_is_correct (calculate_question_score absent_single_task) \<and>
           si_explanation (calculate_question_score absent_single_task) = Some msg_format_error"
    using single_choice_scoring [OF h3] unfolding Let_def
    by (simp add: absent_single_task_def py_strip_Z os sample_single_def)
  show ?thesis
    using h1 h2 h3 d a b c by simp
qed

text \<open>
  Claim C5 as stated fails where two options carry the same id: the answer A names the
  second option, which is flagged correct, yet the score is 0 and the answer counts as
  incorrect, because the first option with the id A is not.
\<close>

theorem duplicate_id_counterexample:
  "is_single_choice (task_question_type duplicate_id_task) \<and>
   task_user_answer duplicate_id_task = PyStr ''A'' \<and>
   \<lparr>opt_id = ''A'', opt_text = ''b4'', opt_is_correct = True, opt_explanation = None\<rparr>
     \<in> set (task_options duplicate_id_task) \<and>
   si_score (calculate_question_score duplicate_id_task) = 0 \<and>
   \<not> si_is_correct (calculate_question_score duplicate_id_task)"
  by (simp add: duplicate_id_task_def calculate_question_score_def is_single_choice_def
      score_single_def correct_ids_def py_strip_A)

section \<open>The overall feedback\<close>

lemma score_tasks_sum:
  "fst (snd (score_tasks em ts (rs, s, c))) =
     s + sum_list (map (\<lambda>t. si_score (calculate_question_score t)) ts)"
  by (induction ts arbitrary: rs s c) (simp_all add: Let_def)

lemma score_tasks_count:
  "snd (snd (score_tasks em ts (rs, s, c))) =
     c + length (filter (\<lambda>t. si_is_correct (calculate_question_score t)) ts)"
  by (induction ts arbitrary: rs s c) (simp_all add: Let_def)

lemma process_total_score:
  "total_score (process_ai_analysis_results ai ts) =
     sum_list (map (\<lambda>t. si_score (calculate_question_score t)) ts)"
  using score_tasks_sum [of "explanation_map ai" ts "[]" 0 0]
  by (auto simp: process_ai_analysis_results_def split: prod.splits)

lemma process_correct_count:
  "correct_count (process_ai_analysis_results ai ts) =
     length (filter (\<lambda>t. si_is_correct (calculate_question_score t)) ts)"
  using score_tasks_count [of "explanation_map ai" ts "[]" 0 0]
  by (auto simp: process_ai_analysis_results_def split: prod.splits)

lemma process_overall_feedback:
  "overall_feedback (process_ai_analysis_results ai ts) =
     (let s = total_score (process_ai_analysis_results ai ts)
      in if s \<ge> 90 then feedback_90 else if s \<ge> 80 then feedback_80
         else if s \<ge> 70 then feedback_70 else if s \<ge> 60 then feedback_60 else feedback_low)"
  unfolding process_ai_analysis_results_def
  by (simp add: Let_def split: prod.splits)

lemma feedback_distinct:
  "distinct [feedback_90, feedback_80, feedback_70, feedback_60, feedback_low]"
  by (simp add: feedback_90_def feedback_80_def feedback_70_def feedback_60_def feedback_low_def)

lemma sample_single_score:
  "si_score (calculate_question_score sample_single_task) = 10 \<and>
   si_is_correct (calculate_question_score sample_single_task)"
  by (simp add: sample_single_task_def sample_single_def calculate_question_score_def
      is_single_choice_def score_single_def correct_ids_def py_strip_B base_score_def)

lemma sample_multiple_score:
  "si_score (calculate_question_score sample_multiple_task) = 5 \<and>
   si_is_correct (calculate_question_score sample_multiple_task)"
proof -
  have c: "correct_ids (task_options sample_multiple_task) = [''A'', ''C'']"
    by (simp add: sample_multiple_task_def sample_multiple_def correct_ids_def)
  have u: "user_options (task_user_answer sample_multiple_task) = {''A''}"
    by (simp add: sample_multiple_task_def)
  have t: "task_question_type sample_multiple_task = ''multiple_choice''"
    by (simp add: sample_multiple_task_def)
  have ne: "{''A''} \<noteq> {''A'', ''C''}" by auto
  show ?thesis
    using ne
    by (simp add: calculate_question_score_def score_multiple_cases c u t
        is_multiple_choice_def is_single_choice_def label_single_def)
qed

text \<open>
  Claim C4. The total is the raw sum of the per-question scores; the feedback is chosen by
  comparing that sum with 90, 80, 70 and 60 in this order, so it is one of five pairwise
  different texts. The two sample questions, scored 10 and 5, total 15 with both counted
  correct, and the feedback is that of the lowest band.
\<close>

theorem overall_feedback_bands:
  "(let r = process_ai_analysis_results ai tasks;
        s = sum_list (map (\<lambda>t. si_score (calculate_question_score t)) tasks)
    in total_score r = s \<and>
       overall_feedback r =
         (if s \<ge> 90 then feedback_90 else if s \<ge> 80 then feedback_80
          else if s \<ge> 70 then feedback_70 else if s \<ge> 60 then feedback_60
          else feedback_low) \<and>
       overall_feedback r \<in> set [feedback_90, feedback_80, feedback_70, feedback_60, feedback_low]) \<and>
   distinct [feedback_90, feedback_80, feedback_70, feedback_60, feedback_low] \<and>
   (let r = process_ai_analysis_results ai [sample_single_task, sample_multiple_task]
    in total_score r = 15 \<and> correct_count r = 2 \<and> total_count r = 2 \<and>
       overall_feedback r = feedback_low)"
proof -
  have tc: "total_count (process_ai_analysis_results ai [sample_single_task, sample_multiple_task]) = 2"
    by (simp add: process_ai_analysis_results_def split: prod.splits)
  have general: "let r = process_ai_analysis_results ai tasks;
        s = sum_list (map (\<lambda>t. si_score (calculate_question_score t)) tasks)
    in total_score r = s \<and>
       overall_feedback r =
         (if s \<ge> 90 then feedback_90 else if s \<ge> 80 then feedback_80
          else if s \<ge> 70 then feedback_70 else if s \<ge> 60 then feedback_60
          else feedback_low) \<and>
       overall_feedback r \<in> set [feedback_90, feedback_80, feedback_70, feedback_60, feedback_low]"
    by (simp add: Let_def process_total_score process_overall_feedback)
  have sample: "let r = process_ai_analysis_results ai [sample_single_task, sample_multiple_task]
    in total_score r = 15 \<and> correct_count r = 2 \<and> total_count r = 2 \<and>
       overall_feedback r = feedback_low"
    by (simp add: Let_def tc process_total_score process_correct_count process_overall_feedback
        sample_single_score sample_multiple_score)
  show ?thesis
    using general feedback_distinct sample by blast
qed

section \<open>Validation of access codes\<close>

lemma validate_chars:
  "validate_access_code code \<longleftrightarrow>
     4 \<le> length code \<and> length code \<le> 10 \<and>
     list_all (\<lambda>c. c \<in> set (ascii_uppercase @ digits)) code"
  by (auto simp: validate_access_code_def)

lemma chars_allowed: "set chars \<subseteq> set (ascii_uppercase @ digits)"
  by (simp add: chars_def ascii_uppercase_def digits_def)

text \<open>
  Claim C9, as amended. \<open>validate_access_code\<close> accepts a code exactly when its length
  is between 4 and 10 and each character is an ASCII uppercase letter or a digit; this
  alphabet contains the generation alphabet, so every code over the generation alphabet
  and every generated code of such a length is accepted.
\<close>

theorem validate_access_code_accepts_all_uppercase_and_digits:
  "(validate_access_code code \<longleftrightarrow>
      4 \<le> length code \<and> length code \<le> 10 \<and>
      list_all (\<lambda>c. c \<in> set (ascii_uppercase @ digits)) code) \<and>
   (4 \<le> length code \<and> length code \<le> 10 \<and> list_all (\<lambda>c. c \<in> set chars) code
      \<longrightarrow> validate_access_code code) \<and>
   (4 \<le> length draws \<and> length draws \<le> 10 \<and> list_all (\<lambda>i. i < length chars) draws
      \<longrightarrow> validate_access_code (generate_access_code draws))"
proof -
  have a: "list_all (\<lambda>c. c \<in> set (ascii_uppercase @ digits)) code"
    if "list_all (\<lambda>c. c \<in> set chars) code"
    using that chars_allowed by (auto simp: list_all_iff)
  have g: "list_all (\<lambda>c. c \<in> set chars) (generate_access_code draws)"
    if "list_all (\<lambda>i. i < length chars) draws"
    using that by (auto simp: list_all_iff generate_access_code_def)
  have g2: "list_all (\<lambda>c. c \<in> set (ascii_uppercase @ digits)) (generate_access_code draws)"
    if "list_all (\<lambda>i. i < length chars) draws"
    using g [OF that] chars_allowed by (auto simp: list_all_iff)
  have l: "length (generate_access_code draws) = length draws"
    by (simp add: generate_access_code_def)
  show ?thesis
    using a g2 l by (auto simp: validate_chars)
qed

text \<open>The theorem at a generated six-character code.\<close>

theorem validate_access_code_witness:
  "validate_access_code ''ABC234'' \<and> validate_access_code (generate_access_code [0, 1, 2, 24, 25, 26]) \<and>
   generate_access_code [0, 1, 2, 24, 25, 26] = ''ABC234''"
proof -
  have c: "4 \<le> length ''ABC234'' \<and> length ''ABC234'' \<le> 10 \<and> list_all (\<lambda>c. c \<in> set chars) ''ABC234''"
    by (simp add: chars_def)
  have d: "4 \<le> length [0, 1, 2, 24, 25, 26::nat] \<and> length [0, 1, 2, 24, 25, 26::nat] \<le> 10 \<and>
           list_all (\<lambda>i. i < length chars) [0, 1, 2, 24, 25, 26]"
    by (simp add: chars_def)
  have e: "generate_access_code [0, 1, 2, 24, 25, 26] = ''ABC234''"
    by (simp add: generate_access_code_def chars_def)
  show ?thesis
    using validate_access_code_accepts_all_uppercase_and_digits [of "''ABC234''" "[0, 1, 2, 24, 25, 26]"] c d e
    by blast
qed

text \<open>
  Claim C9 as stated fails: a code made of the four visually ambiguous characters, none
  of which is in the generation alphabet, is accepted.
\<close>

theorem ambiguous_characters_counterexample:
  "validate_access_code ''O0I1'' \<and> \<not> list_all (\<lambda>c. c \<in> set chars) ''O0I1''"
  by (simp add: validate_access_code_def ascii_uppercase_def digits_def chars_def)

section \<open>Reading a paper\<close>

lemma hide_mask: "hide_correct_answers (map mask_question qs) = hide_correct_answers qs"
  by (simp add: hide_correct_answers_def mask_question_def mask_option_def comp_def)

lemma find_map_row:
  "(\<And>x. P (f x) = P x) \<Longrightarrow> find P (map f xs) = map_option f (find P xs)"
  by (induction xs) auto

lemma dao_get_paper_by_id_mask:
  "dao_get_paper_by_id (mask_state st) pid =
     map_option (\<lambda>p. p\<lparr>pr_questions := map mask_question (pr_questions p)\<rparr>)
                (dao_get_paper_by_id st pid)"
  by (simp add: dao_get_paper_by_id_def mask_state_def find_map_row)

lemma dao_get_paper_by_access_code_mask:
  "dao_get_paper_by_access_code (mask_state st) code =
     map_option (\<lambda>p. p\<lparr>pr_questions := map mask_question (pr_questions p)\<rparr>)
                (dao_get_paper_by_access_code st code)"
  by (simp add: dao_get_paper_by_access_code_def mask_state_def find_map_row)

lemma get_shared_paper_mask:
  "get_shared_paper (mask_state st) pid =
     map_option (\<lambda>c. c\<lparr>cp_questions := map mask_question (cp_questions c)\<rparr>)
                (get_shared_paper st pid)"
  by (simp add: get_shared_paper_def mask_state_def)

lemma get_paper_id_by_access_code_mask:
  "get_paper_id_by_access_code (mask_state st) code = get_paper_id_by_access_code st code"
  by (simp add: get_paper_id_by_access_code_def mask_state_def)

lemma get_paper_by_id_mask:
  "fst (get_paper_by_id (mask_state st) pid) = fst (get_paper_by_id st pid)"
  by (simp add: get_paper_by_id_def get_shared_paper_mask dao_get_paper_by_id_mask
      dao_get_paper_questions_def hide_mask Let_def split: option.splits)

lemma get_paper_by_access_code_mask:
  "fst (get_paper_by_access_code (mask_state st) code) = fst (get_paper_by_access_code st code)"
  by (simp add: get_paper_by_access_code_def get_paper_id_by_access_code_mask
      dao_get_paper_by_access_code_mask get_paper_by_id_mask split: option.splits)

text \<open>
  Claim C3. Whatever the read path (cache hit, or the fallback to the durable store that
  re-seeds the cache; by paper id or by access code), the view returned is independent of
  the options' \<open>is_correct\<close> and \<open>explanation\<close> fields: two states that agree once
  those fields are overwritten return the same view. The options of a view are
  \<open>frontend_option\<close> records, which have an id and a text and nothing else.
\<close>

theorem paper_view_hides_ground_truth:
  assumes "mask_state st1 = mask_state st2"
  shows "fst (get_paper_by_id st1 paper_id) = fst (get_paper_by_id st2 paper_id) \<and>
         fst (get_paper_by_access_code st1 access_code) =
         fst (get_paper_by_access_code st2 access_code)"
proof -
  have "fst (get_paper_by_id st1 paper_id) = fst (get_paper_by_id (mask_state st1) paper_id)"
    by (simp add: get_paper_by_id_mask)
  also have "\<dots> = fst (get_paper_by_id st2 paper_id)"
    by (simp add: assms get_paper_by_id_mask)
  finally have a: "fst (get_paper_by_id st1 paper_id) = fst (get_paper_by_id st2 paper_id)" .
  have "fst (get_paper_by_access_code st1 access_code) =
        fst (get_paper_by_access_code (mask_state st1) access_code)"
    by (simp add: get_paper_by_access_code_mask)
  also have "\<dots> = fst (get_paper_by_access_code st2 access_code)"
    by (simp add: assms get_paper_by_access_code_mask)
  finally show ?thesis using a by simp
qed

lemma sample_states_masked: "mask_state stored_state = mask_state altered_state"
  by (simp add: mask_state_def stored_state_def altered_state_def empty_state_def sample_row_def
      sample_questions_def sample_single_def sample_multiple_def mask_question_def mask_option_def)

lemma sample_states_differ: "stored_state \<noteq> altered_state"
  by (simp add: stored_state_def altered_state_def empty_state_def sample_row_def
      sample_questions_def sample_single_def sample_multiple_def)

lemma stored_view: "fst (get_paper_by_id stored_state sample_paper_id) = Some sample_view"
  by (simp add: get_paper_by_id_def get_shared_paper_def stored_state_def empty_state_def
      dao_get_paper_by_id_def dao_get_paper_questions_def sample_row_def sample_view_def Let_def
      sample_questions_def hide_correct_answers_def)

text \<open>
  The theorem at the stored sample paper and the same paper with other ground truth: the
  states differ, the views do not.
\<close>

theorem paper_view_hides_ground_truth_witness:
  "mask_state stored_state = mask_state altered_state \<and> stored_state \<noteq> altered_state \<and>
   fst (get_paper_by_id altered_state sample_paper_id) = Some sample_view \<and>
   fst (get_paper_by_access_code stored_state sample_access_code) =
   fst (get_paper_by_access_code altered_state sample_access_code)"
  using paper_view_hides_ground_truth [OF sample_states_masked, of sample_paper_id sample_access_code]
    sample_states_masked sample_states_differ stored_view
  by simp

section \<open>Papers that are not active\<close>

lemma cached_state_eq:
  "cached_state =
     stored_state\<lparr>shared_paper_cache := [sample_paper_id \<mapsto> sample_cached],
                  access_code_cache := [sample_access_code \<mapsto> sample_paper_id]\<rparr>"
  by (simp add: cached_state_def get_paper_by_id_def get_shared_paper_def stored_state_def
      empty_state_def dao_get_paper_by_id_def dao_get_paper_questions_def sample_row_def
      sample_cached_def Let_def sample_questions_def save_shared_paper_def
      save_access_code_mapping_def)

lemma deactivated_cached_state_eq:
  "deactivated_cached_state =
     cached_state\<lparr>papers := [sample_row\<lparr>pr_status := ''inactive''\<rparr>]\<rparr>"
  by (simp add: deactivated_cached_state_def dao_update_paper_status_def cached_state_eq
      stored_state_def empty_state_def dao_get_paper_by_id_def sample_row_def)

lemma deactivated_stored_state_eq:
  "deactivated_stored_state =
     stored_state\<lparr>papers := [sample_row\<lparr>pr_status := ''inactive''\<rparr>]\<rparr>"
  by (simp add: deactivated_stored_state_def dao_update_paper_status_def
      stored_state_def empty_state_def dao_get_paper_by_id_def sample_row_def)

lemma sample_view_hidden: "sample_view =
   \<lparr>pv_paper_id = sample_paper_id, pv_access_code = sample_access_code,
      pv_questions = hide_correct_answers sample_questions,
      pv_total_count = length (hide_correct_answers sample_questions),
      pv_created_at = ''2025-01-01T08:00:00'', pv_documents = [], pv_document_count = 0\<rparr>"
  by (simp add: sample_view_def hide_correct_answers_def sample_questions_def)

text \<open>
  Claim C6 does not hold on the cache-hit path. The sample paper is cached by a read and
  then set inactive in the durable store: both reads, by id and by access code, still
  return its view, because the cache-hit branch never looks at the status. Without the
  cache entry the same reads return nothing, as the fallback branch checks the status.
\<close>

theorem cached_inactive_paper_is_served:
  "dao_get_paper_by_id deactivated_cached_state sample_paper_id =
     Some (sample_row\<lparr>pr_status := ''inactive''\<rparr>) \<and>
   fst (get_paper_by_id deactivated_cached_state sample_paper_id) = Some sample_view \<and>
   fst (get_paper_by_access_code deactivated_cached_state sample_access_code) = Some sample_view \<and>
   fst (get_paper_by_id deactivated_stored_state sample_paper_id) = None \<and>
   fst (get_paper_by_access_code deactivated_stored_state sample_access_code) = None"
proof -
  have a: "dao_get_paper_by_id deactivated_cached_state sample_paper_id =
             Some (sample_row\<lparr>pr_status := ''inactive''\<rparr>)"
    by (simp add: deactivated_cached_state_eq cached_state_eq dao_get_paper_by_id_def sample_row_def)
  have c: "get_shared_paper deactivated_cached_state sample_paper_id = Some sample_cached"
    by (simp add: deactivated_cached_state_eq cached_state_eq get_shared_paper_def)
  have b: "fst (get_paper_by_id deactivated_cached_state sample_paper_id) = Some sample_view"
    by (simp add: get_paper_by_id_def c Let_def sample_view_hidden) (simp add: sample_cached_def)
  have m: "get_paper_id_by_access_code deactivated_cached_state sample_access_code = Some sample_paper_id"
    by (simp add: deactivated_cached_state_eq cached_state_eq get_paper_id_by_access_code_def
        sample_paper_id_def)
  have d: "fst (get_paper_by_access_code deactivated_cached_state sample_access_code) = Some sample_view"
    by (simp add: get_paper_by_access_code_def m b)
  have e: "fst (get_paper_by_id deactivated_stored_state sample_paper_id) = None"
    by (simp add: get_paper_by_id_def get_shared_paper_def deactivated_stored_state_eq
        stored_state_def empty_state_def dao_get_paper_by_id_def sample_row_def)
  have f: "fst (get_paper_by_access_code deactivated_stored_state sample_access_code) = None"
    by (simp add: get_paper_by_access_code_def get_paper_id_by_access_code_def
        deactivated_stored_state_eq stored_state_def empty_state_def
        dao_get_paper_by_access_code_def sample_row_def)
  show ?thesis using a b d e f by simp
qed

section \<open>Submitting answers\<close>

subsection \<open>Storing a submission\<close>


lemma update_first_map:
  "(\<And>x. g (f x) = g x) \<Longrightarrow> map g (update_first P f xs) = map g xs"
  by (induction xs) auto

lemma update_first_find:
  "(\<And>x. P (f x) = P x) \<Longrightarrow> find P (update_first P f xs) = map_option f (find P xs)"
  by (induction xs) auto




lemma store_answer_existing:
  "dao_get_user_answer st (ad_paper_id a) (ad_user_id a) = Some old \<Longrightarrow>
   user_answers (store_answer clk st a) =
     update_first (is_answer_of (ad_paper_id a) (ad_user_id a)) (assign_columns a) (user_answers st)"
  by (simp add: store_answer_def dao_update_user_answer_def save_user_answer_def Let_def)


lemma store_answer_new:
  "dao_get_user_answer st (ad_paper_id a) (ad_user_id a) = None \<Longrightarrow>
   user_answers (store_answer clk st a) =
     user_answers (dao_create_user_answer (clk_db_now clk) st a)"
  by (simp add: store_answer_def save_user_answer_def Let_def)

lemma store_answer_cache:
  "user_answer_cache (store_answer clk st a) =
     (user_answer_cache st)(user_answer_key (ad_paper_id a) (ad_user_id a) \<mapsto>
        \<lparr>ca_data = a, ca_submitted_at = clk_cache_now clk\<rparr>)"
  by (simp add: store_answer_def save_user_answer_def Let_def dao_update_user_answer_def
      dao_create_user_answer_def split: option.splits)

lemma store_answer_papers:
  "papers (store_answer clk st a) = papers st \<and>
   shared_paper_cache (store_answer clk st a) = shared_paper_cache st \<and>
   access_code_cache (store_answer clk st a) = access_code_cache st"
  by (simp add: store_answer_def save_user_answer_def Let_def dao_update_user_answer_def
      dao_create_user_answer_def split: option.splits)


lemma assign_columns_is_answer_of:
  "is_answer_of p u (assign_columns a row) = is_answer_of p u row"
  by (simp add: assign_columns_def is_answer_of_def)

lemma assign_columns_blank: "blank_results (assign_columns a row) = blank_results row"
  by (simp add: assign_columns_def blank_results_def)




lemma submit_success:
  assumes "submit_answers clk outcome st paper_id user_id answers = (Inr receipt, st')"
  shows "\<exists>questions tasks ai.
           resolve_questions st paper_id = Inr questions \<and>
           build_analysis_tasks_from_cache questions answers = Inr tasks \<and>
           outcome = Results ai \<and>
           st' = store_answer clk st
                   (build_answer_data paper_id user_id answers
                      (process_ai_analysis_results ai tasks))"
  using assms
  by (auto simp: submit_answers_def analyze_paper_answers_def Let_def
      split: sum.splits option.splits generator_outcome.splits)

lemma build_answer_data_ids:
  "ad_paper_id (build_answer_data p u ans r) = p \<and> ad_user_id (build_answer_data p u ans r) = u"
  by (simp add: build_answer_data_def)

lemma submit_results:
  "resolve_questions st paper_id = Inr questions \<Longrightarrow>
   build_analysis_tasks_from_cache questions answers = Inr tasks \<Longrightarrow>
   submit_answers clk (Results ai) st paper_id user_id answers =
     (Inr \<lparr>rc_paper_id = paper_id, rc_user_id = user_id, rc_submitted_at = clk_receipt_now clk\<rparr>,
      store_answer clk st
        (build_answer_data paper_id user_id answers (process_ai_analysis_results ai tasks)))"
  by (simp add: submit_answers_def analyze_paper_answers_def Let_def)

subsection \<open>A failing explanation generator\<close>

lemma submit_generator_failure:
  "analyze_paper_answers outcome = (\<lambda>tasks. Inr None) \<Longrightarrow>
   \<exists>e. submit_answers clk outcome st paper_id user_id answers = (Inl e, st)"
  by (simp add: submit_answers_def split: sum.splits)

lemma analyze_raises: "analyze_paper_answers CallRaises = (\<lambda>tasks. Inr None)"
  by (simp add: analyze_paper_answers_def fun_eq_iff)

lemma analyze_unusable: "analyze_paper_answers OutputUnusable = (\<lambda>tasks. Inr None)"
  by (simp add: analyze_paper_answers_def fun_eq_iff)

lemma sample_resolve_cached: "resolve_questions cached_state sample_paper_id = Inr sample_questions"
  by (simp add: resolve_questions_def get_shared_paper_def cached_state_eq sample_cached_def
      sample_questions_def)

lemma sample_question_map:
  "question_map sample_questions = [''1'' \<mapsto> sample_single, ''2'' \<mapsto> sample_multiple]"
  by (simp add: question_map_def sample_questions_def sample_single_def sample_multiple_def)

lemma sample_build: "build_analysis_tasks_from_cache sample_questions sample_answers =
    Inr [sample_single_task, sample_multiple_task]"
  by (simp add: build_analysis_tasks_from_cache_def sample_question_map sample_answers_def
      sample_single_task_def sample_multiple_task_def)
     (simp add: sample_single_def sample_multiple_def)

text \<open>
  Claim C2 does not hold. When the generator call raises, or its output cannot be read,
  \<open>analyze_paper_answers\<close> returns \<open>None\<close>, reading the result raises, and
  \<open>submit_answers\<close> ends with an error in every state, leaving both tiers as they
  were; at the sample paper the error is the \<open>AttributeError\<close>.
\<close>

theorem submit_aborts_when_generator_fails:
  "(\<exists>e. submit_answers clk CallRaises st paper_id user_id answers = (Inl e, st)) \<and>
   (\<exists>e. submit_answers clk OutputUnusable st paper_id user_id answers = (Inl e, st)) \<and>
   submit_answers sample_clock CallRaises cached_state sample_paper_id ''taker'' sample_answers =
     (Inl AttributeError, cached_state) \<and>
   submit_answers sample_clock OutputUnusable cached_state sample_paper_id ''taker'' sample_answers =
     (Inl AttributeError, cached_state)"
proof -
  have a: "submit_answers sample_clock CallRaises cached_state sample_paper_id ''taker'' sample_answers =
     (Inl AttributeError, cached_state)"
    by (simp add: submit_answers_def sample_resolve_cached sample_build analyze_paper_answers_def)
  have b: "submit_answers sample_clock OutputUnusable cached_state sample_paper_id ''taker'' sample_answers =
     (Inl AttributeError, cached_state)"
    by (simp add: submit_answers_def sample_resolve_cached sample_build analyze_paper_answers_def)
  show ?thesis
    using submit_generator_failure [OF analyze_raises] submit_generator_failure [OF analyze_unusable]
      a b by blast
qed

subsection \<open>Papers that are missing or inactive\<close>

lemma find_restatus:
  "find (\<lambda>p. pr_paper_id p = paper_id) (map (\<lambda>p. p\<lparr>pr_status := f p\<rparr>) ps) =
     map_option (\<lambda>p. p\<lparr>pr_status := f p\<rparr>) (find (\<lambda>p. pr_paper_id p = paper_id) ps)"
  by (induction ps) auto

lemma resolve_with_statuses:
  "resolve_questions (with_statuses f st) paper_id = resolve_questions st paper_id"
  by (simp add: resolve_questions_def get_shared_paper_def dao_get_paper_questions_def
      dao_get_paper_by_id_def with_statuses_def find_restatus
      split: option.splits)

lemma store_with_statuses:
  "store_answer clk (with_statuses f st) a = with_statuses f (store_answer clk st a)"
  by (simp add: store_answer_def with_statuses_def dao_get_user_answer_def
      dao_update_user_answer_def dao_create_user_answer_def save_user_answer_def Let_def
      split: option.splits)

lemma submit_with_statuses:
  "submit_answers clk outcome (with_statuses f st) paper_id user_id answers =
     (fst (submit_answers clk outcome st paper_id user_id answers),
      with_statuses f (snd (submit_answers clk outcome st paper_id user_id answers)))"
  by (simp add: submit_answers_def resolve_with_statuses store_with_statuses Let_def
      split: sum.splits option.splits)

lemma questions_store:
  "dao_get_paper_questions (store_answer clk st a) paper_id = dao_get_paper_questions st paper_id"
  by (simp add: dao_get_paper_questions_def dao_get_paper_by_id_def store_answer_papers)

lemma resolve_store:
  "resolve_questions (store_answer clk st a) paper_id = resolve_questions st paper_id"
  by (simp add: resolve_questions_def get_shared_paper_def questions_store store_answer_papers
      cong: option.case_cong)

lemma resolve_deactivated:
  "resolve_questions deactivated_stored_state sample_paper_id = Inr sample_questions"
  by (simp add: resolve_questions_def get_shared_paper_def dao_get_paper_questions_def
      dao_get_paper_by_id_def deactivated_stored_state_eq stored_state_def empty_state_def
      sample_row_def sample_questions_def)

lemma resolve_stored:
  "resolve_questions stored_state sample_paper_id = Inr sample_questions"
  by (simp add: resolve_questions_def get_shared_paper_def dao_get_paper_questions_def
      dao_get_paper_by_id_def stored_state_def empty_state_def
      sample_row_def sample_questions_def)

lemma store_answer_first:
  "user_answers st = [] \<Longrightarrow>
   \<exists>row. user_answers (store_answer clk st a) = [row] \<and>
         is_answer_of (ad_paper_id a) (ad_user_id a) row \<and>
         uar_submitted_at row = clk_db_now clk"
  by (simp add: store_answer_new dao_get_user_answer_def dao_create_user_answer_def
      is_answer_of_def)

lemma deactivated_is_restatus:
  "deactivated_stored_state = with_statuses (\<lambda>p. ''inactive'') stored_state"
  by (simp add: deactivated_stored_state_eq with_statuses_def stored_state_def empty_state_def)

lemma orphaned_state_eq: "orphaned_state = cached_state\<lparr>papers := []\<rparr>"
  by (simp add: orphaned_state_def dao_delete_paper_def cached_state_eq stored_state_def
      empty_state_def dao_get_paper_by_id_def sample_row_def)

lemma resolve_orphaned:
  "resolve_questions orphaned_state sample_paper_id = Inr sample_questions"
  by (simp add: resolve_questions_def get_shared_paper_def orphaned_state_eq cached_state_eq
      sample_cached_def sample_questions_def)

text \<open>
  Claim C7, as amended. A submission for a paper that is found neither in the cache nor
  in the durable store fails with the not-found error and leaves both tiers as they were.
  The status of a paper is not consulted: with the statuses of the durable papers
  replaced in any way, a submission returns the same result and makes the same writes.
\<close>

theorem submit_fails_for_missing_paper:
  "(get_shared_paper st paper_id = None \<and> dao_get_paper_by_id st paper_id = None \<longrightarrow>
      submit_answers clk outcome st paper_id user_id answers = (Inl PaperNotFound, st)) \<and>
   submit_answers clk outcome (with_statuses f st) paper_id user_id answers =
     (fst (submit_answers clk outcome st paper_id user_id answers),
      with_statuses f (snd (submit_answers clk outcome st paper_id user_id answers)))"
proof -
  have "submit_answers clk outcome st paper_id user_id answers = (Inl PaperNotFound, st)"
    if "get_shared_paper st paper_id = None" "dao_get_paper_by_id st paper_id = None"
    using that
    by (simp add: submit_answers_def resolve_questions_def dao_get_paper_questions_def)
  then show ?thesis
    using submit_with_statuses by blast
qed

text \<open>
  The theorem at the empty state, where the sample paper is missing, and at the stored
  sample paper made inactive, where the submission is accepted as it is for the active
  paper.
\<close>

theorem submit_fails_for_missing_paper_witness:
  "get_shared_paper empty_state sample_paper_id = None \<and>
   dao_get_paper_by_id empty_state sample_paper_id = None \<and>
   submit_answers sample_clock (Results []) empty_state sample_paper_id ''taker'' sample_answers =
     (Inl PaperNotFound, empty_state) \<and>
   fst (submit_answers sample_clock (Results []) deactivated_stored_state sample_paper_id
          ''taker'' sample_answers) =
     fst (submit_answers sample_clock (Results []) stored_state sample_paper_id
          ''taker'' sample_answers) \<and>
   fst (submit_answers sample_clock (Results []) stored_state sample_paper_id
          ''taker'' sample_answers) =
     Inr \<lparr>rc_paper_id = sample_paper_id, rc_user_id = ''taker'',
          rc_submitted_at = clk_receipt_now sample_clock\<rparr>"
proof -
  have a: "get_shared_paper empty_state sample_paper_id = None"
    by (simp add: get_shared_paper_def empty_state_def)
  have b: "dao_get_paper_by_id empty_state sample_paper_id = None"
    by (simp add: dao_get_paper_by_id_def empty_state_def)
  have c: "fst (submit_answers sample_clock (Results []) stored_state sample_paper_id
          ''taker'' sample_answers) =
     Inr \<lparr>rc_paper_id = sample_paper_id, rc_user_id = ''taker'',
          rc_submitted_at = clk_receipt_now sample_clock\<rparr>"
    by (simp add: submit_results [OF resolve_stored sample_build])
  show ?thesis
    using submit_fails_for_missing_paper
      [of empty_state sample_paper_id sample_clock "Results []" "''taker''" sample_answers]
      submit_fails_for_missing_paper
      [of stored_state sample_paper_id sample_clock "Results []" "''taker''" sample_answers
          "\<lambda>p. ''inactive''"]
      a b c
    by (simp add: deactivated_is_restatus)
qed

text \<open>
  Claim C7 as stated fails in two places. The sample paper, inactive in the durable
  store, accepts a submission, which is recorded in both tiers. And a paper need not be
  in the durable store: the sample paper, cached by a read and then deleted from the
  durable store, still accepts a submission, which is recorded in both tiers.
\<close>

theorem inactive_paper_counterexample:
  "dao_get_paper_by_id deactivated_stored_state sample_paper_id =
     Some (sample_row\<lparr>pr_status := ''inactive''\<rparr>) \<and>
   fst (submit_answers sample_clock (Results []) deactivated_stored_state sample_paper_id
          ''taker'' sample_answers) =
     Inr \<lparr>rc_paper_id = sample_paper_id, rc_user_id = ''taker'',
          rc_submitted_at = ''2025-01-02T09:00:02''\<rparr> \<and>
   length (user_answers (snd (submit_answers sample_clock (Results []) deactivated_stored_state
          sample_paper_id ''taker'' sample_answers))) = 1 \<and>
   user_answer_cache (snd (submit_answers sample_clock (Results []) deactivated_stored_state
          sample_paper_id ''taker'' sample_answers)) (user_answer_key sample_paper_id ''taker'')
     \<noteq> None \<and>
   dao_get_paper_by_id orphaned_state sample_paper_id = None \<and>
   fst (submit_answers sample_clock (Results []) orphaned_state sample_paper_id
          ''taker'' sample_answers) =
     Inr \<lparr>rc_paper_id = sample_paper_id, rc_user_id = ''taker'',
          rc_submitted_at = ''2025-01-02T09:00:02''\<rparr> \<and>
   length (user_answers (snd (submit_answers sample_clock (Results []) orphaned_state
          sample_paper_id ''taker'' sample_answers))) = 1 \<and>
   user_answer_cache (snd (submit_answers sample_clock (Results []) orphaned_state
          sample_paper_id ''taker'' sample_answers)) (user_answer_key sample_paper_id ''taker'')
     \<noteq> None"
proof -
  have t: "clk_receipt_now sample_clock = ''2025-01-02T09:00:02''"
    by (simp add: sample_clock_def)
  have a: "dao_get_paper_by_id deactivated_stored_state sample_paper_id =
             Some (sample_row\<lparr>pr_status := ''inactive''\<rparr>)"
    by (simp add: deactivated_stored_state_eq stored_state_def empty_state_def
        dao_get_paper_by_id_def sample_row_def)
  have e: "user_answers deactivated_stored_state = []"
    by (simp add: deactivated_stored_state_eq stored_state_def empty_state_def)
  let ?r = "submit_answers sample_clock (Results []) deactivated_stored_state sample_paper_id
              ''taker'' sample_answers"
  note s = submit_results [OF resolve_deactivated sample_build, of sample_clock "[]" "''taker''"]
  have b: "fst ?r = Inr \<lparr>rc_paper_id = sample_paper_id, rc_user_id = ''taker'',
                         rc_submitted_at = clk_receipt_now sample_clock\<rparr>"
    by (simp add: s)
  obtain row where "user_answers (snd ?r) = [row]"
    unfolding s using store_answer_first [OF e] by auto
  then have c: "length (user_answers (snd ?r)) = 1" by simp
  have d: "user_answer_cache (snd ?r) (user_answer_key sample_paper_id ''taker'') \<noteq> None"
    by (simp add: s store_answer_cache build_answer_data_ids)
  have a': "dao_get_paper_by_id orphaned_state sample_paper_id = None"
    by (simp add: orphaned_state_eq dao_get_paper_by_id_def)
  have e': "user_answers orphaned_state = []"
    by (simp add: orphaned_state_eq cached_state_eq stored_state_def empty_state_def)
  let ?q = "submit_answers sample_clock (Results []) orphaned_state sample_paper_id
              ''taker'' sample_answers"
  note s' = submit_results [OF resolve_orphaned sample_build, of sample_clock "[]" "''taker''"]
  have b': "fst ?q = Inr \<lparr>rc_paper_id = sample_paper_id, rc_user_id = ''taker'',
                          rc_submitted_at = clk_receipt_now sample_clock\<rparr>"
    by (simp add: s')
  obtain row' where "user_answers (snd ?q) = [row']"
    unfolding s' using store_answer_first [OF e'] by auto
  then have c': "length (user_answers (snd ?q)) = 1" by simp
  have d': "user_answer_cache (snd ?q) (user_answer_key sample_paper_id ''taker'') \<noteq> None"
    by (simp add: s' store_answer_cache build_answer_data_ids)
  show ?thesis
    using a b c d a' b' c' d' unfolding t by simp
qed

subsection \<open>Submitting again\<close>


lemma store_answer_existing_counter:
  "dao_get_user_answer st (ad_paper_id a) (ad_user_id a) = Some old \<Longrightarrow>
   next_answer_id (store_answer clk st a) = next_answer_id st"
  by (simp add: store_answer_def dao_update_user_answer_def save_user_answer_def Let_def)

text \<open>
  Claim C10. A successful submission for a key that already has a durable row changes, in
  the durable table, nothing but the six result columns (every row agrees with its former
  self once those columns are blanked, so ids, keys and \<open>submitted_at\<close> are kept, and no
  row is added); the row of the key keeps its \<open>submitted_at\<close>, while the cached copy
  carries the time of this submission.
\<close>

theorem resubmission_keeps_submitted_at:
  assumes old: "dao_get_user_answer st paper_id user_id = Some old"
    and sub: "submit_answers clk outcome st paper_id user_id answers = (Inr receipt, st')"
  shows "map blank_results (user_answers st') = map blank_results (user_answers st) \<and>
         (\<exists>new. dao_get_user_answer st' paper_id user_id = Some new \<and>
                uar_submitted_at new = uar_submitted_at old \<and> uar_id new = uar_id old \<and>
                uar_answers new = Some answers) \<and>
         next_answer_id st' = next_answer_id st \<and>
         (\<exists>cached. user_answer_cache st' (user_answer_key paper_id user_id) = Some cached \<and>
                   ca_submitted_at cached = clk_cache_now clk \<and>
                   ad_answers (ca_data cached) = answers)"
proof -
  obtain a where st': "st' = store_answer clk st a"
      and ids: "ad_paper_id a = paper_id" "ad_user_id a = user_id"
      and ans: "ad_answers a = answers"
    using submit_success [OF sub] by (auto simp: build_answer_data_def)
  have rows: "user_answers st' =
                update_first (is_answer_of paper_id user_id) (assign_columns a) (user_answers st)"
    using store_answer_existing [of st a old clk] old by (simp add: st' ids)
  have frame: "map blank_results (user_answers st') = map blank_results (user_answers st)"
    by (simp add: rows update_first_map assign_columns_blank)
  have new: "dao_get_user_answer st' paper_id user_id = Some (assign_columns a old)"
    using old by (simp add: dao_get_user_answer_def rows update_first_find assign_columns_is_answer_of)
  have kept: "uar_submitted_at (assign_columns a old) = uar_submitted_at old \<and>
              uar_id (assign_columns a old) = uar_id old \<and>
              uar_answers (assign_columns a old) = Some answers"
    by (simp add: assign_columns_def ans)
  have counter: "next_answer_id st' = next_answer_id st"
    using store_answer_existing_counter [of st a old clk] old by (simp add: st' ids)
  have cache: "user_answer_cache st' (user_answer_key paper_id user_id) =
                 Some \<lparr>ca_data = a, ca_submitted_at = clk_cache_now clk\<rparr>"
    by (simp add: st' store_answer_cache ids)
  show ?thesis
    using frame new kept counter cache ans by simp
qed

subsection \<open>The sample paper, submitted twice\<close>


lemma once_submitted_state_eq:
  "once_submitted_state =
     store_answer sample_clock stored_state
       (build_answer_data sample_paper_id ''taker'' sample_answers
          (process_ai_analysis_results [] [sample_single_task, sample_multiple_task]))"
  by (simp add: once_submitted_state_def submit_results [OF resolve_stored sample_build])

lemma resolve_once:
  "resolve_questions once_submitted_state sample_paper_id = Inr sample_questions"
  by (simp add: once_submitted_state_eq resolve_store resolve_stored)

lemma sample_build2:
  "build_analysis_tasks_from_cache sample_questions sample_answers2 =
     Inr [sample_single_task\<lparr>task_user_answer := PyStr ''A''\<rparr>,
          sample_multiple_task\<lparr>task_user_answer := PyList [''A'', ''C'']\<rparr>]"
  by (simp add: build_analysis_tasks_from_cache_def sample_question_map sample_answers2_def
      sample_single_task_def sample_multiple_task_def)
     (simp add: sample_single_def sample_multiple_def)

lemma sample_second_submit:
  "submit_answers later_clock (Results []) once_submitted_state sample_paper_id ''taker''
     sample_answers2 =
     (Inr \<lparr>rc_paper_id = sample_paper_id, rc_user_id = ''taker'',
           rc_submitted_at = clk_receipt_now later_clock\<rparr>, twice_submitted_state)"
  by (simp add: twice_submitted_state_def submit_results [OF resolve_once sample_build2])

lemma once_rows:
  "\<exists>row. user_answers once_submitted_state = [row] \<and>
         is_answer_of sample_paper_id ''taker'' row \<and>
         uar_submitted_at row = clk_db_now sample_clock"
proof -
  have e: "user_answers stored_state = []"
    by (simp add: stored_state_def empty_state_def)
  show ?thesis
    unfolding once_submitted_state_eq
    using store_answer_first [OF e, of sample_clock
        "build_answer_data sample_paper_id ''taker'' sample_answers
          (process_ai_analysis_results [] [sample_single_task, sample_multiple_task])"]
    by (simp add: build_answer_data_ids)
qed




text \<open>
  The theorem of claim C10 at the sample paper: the row keeps the time of the first
  submission, the cached copy has the time of the second.
\<close>

theorem resubmission_keeps_submitted_at_witness:
  "(\<exists>old. dao_get_user_answer once_submitted_state sample_paper_id ''taker'' = Some old \<and>
          uar_submitted_at old = ''2025-01-02T09:00:00'') \<and>
   submit_answers later_clock (Results []) once_submitted_state sample_paper_id ''taker''
     sample_answers2 =
     (Inr \<lparr>rc_paper_id = sample_paper_id, rc_user_id = ''taker'',
           rc_submitted_at = clk_receipt_now later_clock\<rparr>, twice_submitted_state) \<and>
   (\<exists>new. dao_get_user_answer twice_submitted_state sample_paper_id ''taker'' = Some new \<and>
          uar_submitted_at new = ''2025-01-02T09:00:00'' \<and>
          uar_answers new = Some sample_answers2) \<and>
   (\<exists>cached. user_answer_cache twice_submitted_state (user_answer_key sample_paper_id ''taker'') =
               Some cached \<and>
             ca_submitted_at cached = ''2025-01-03T10:00:01'')"
proof -
  obtain old where rows: "user_answers once_submitted_state = [old]"
      and key: "is_answer_of sample_paper_id ''taker'' old"
      and at: "uar_submitted_at old = clk_db_now sample_clock"
    using once_rows by blast
  have old: "dao_get_user_answer once_submitted_state sample_paper_id ''taker'' = Some old"
    by (simp add: dao_get_user_answer_def rows key)
  have t1: "clk_db_now sample_clock = ''2025-01-02T09:00:00''"
    by (simp add: sample_clock_def)
  have t2: "clk_cache_now later_clock = ''2025-01-03T10:00:01''"
    by (simp add: later_clock_def)
  show ?thesis
    using resubmission_keeps_submitted_at [OF old sample_second_submit] old at sample_second_submit
    unfolding t1 t2 by auto
qed

end
